theory Spec2Isabelle
  imports Complex_Main "HOL-Library.Multiset"
begin

section \<open>The Goldbach signal engine (app/goldbach\_engine.py)\<close>

text \<open>
  Python floats are modelled as real numbers with exact arithmetic, Python's unbounded
  integers as \<open>int\<close>. Free-text fields that no operation reads back (the reasoning
  lists, the names of levels and of AMD cycles, the invalidation descriptions) are not
  carried by the records. Exceptions are values of \<open>py_error\<close>.
\<close>

datatype py_error = ZeroDivisionError | ValueError | OverflowError

datatype Bias = BULLISH | BEARISH | NEUTRAL

datatype Layer = LIQUIDITY | FLOW | REBALANCE

datatype TradePlan = EINSTEIN | LIQUIDITY_PLAN | FLOW_CONTINUATION | FLOW_REJECTION
  | REBALANCE_PLAN | STOP_RUN

datatype AMDCycle = ASIAN | MANIPULATION | DISTRIBUTION_1 | DISTRIBUTION_2

fun amd_value :: "AMDCycle \<Rightarrow> string" where
  "amd_value ASIAN = ''A''"
| "amd_value MANIPULATION = ''M''"
| "amd_value DISTRIBUTION_1 = ''D1''"
| "amd_value DISTRIBUTION_2 = ''D2''"

definition PO3_SIZES :: "int list" where
  "PO3_SIZES = [3, 9, 27, 81, 243, 729, 2187, 6561]"

definition DEFAULT_PO3 :: int where
  "DEFAULT_PO3 = 729"

text \<open>The level table: percentage of the range and layer of each entry, in dictionary order.\<close>

definition GOLDBACH_LEVELS :: "(int \<times> Layer option) list" where
  "GOLDBACH_LEVELS =
    [(0, Some LIQUIDITY), (3, Some LIQUIDITY), (7, Some LIQUIDITY), (11, Some LIQUIDITY),
     (17, Some LIQUIDITY), (23, None), (29, Some FLOW), (35, None), (41, Some REBALANCE),
     (47, Some REBALANCE), (50, Some REBALANCE), (53, Some REBALANCE), (59, Some REBALANCE),
     (65, None), (71, Some FLOW), (77, None), (83, Some LIQUIDITY), (89, Some LIQUIDITY),
     (93, Some LIQUIDITY), (97, Some LIQUIDITY), (100, Some LIQUIDITY)]"

definition GOLDBACH_NUMBERS :: "nat list" where
  "GOLDBACH_NUMBERS = [3, 11, 17, 29, 41, 47, 53, 59, 71, 83, 89, 97]"

text \<open>\<open>MONTHLY_PARTITIONS.get(month, {})\<close> followed by the two \<open>.get\<close> with defaults 1 and 0.\<close>

definition partition_start_day :: "nat \<Rightarrow> nat" where
  "partition_start_day m =
    (if m = 1 then 8 else if m = 2 then 7 else if m = 3 then 6 else if m = 4 then 5
     else if m = 5 then 4 else if m = 6 then 3 else if m = 7 then 2 else if m = 8 then 1
     else if m = 9 then 9 else if m = 10 then 8 else if m = 11 then 7 else if m = 12 then 6
     else 1)"

definition partition_number :: "nat \<Rightarrow> nat" where
  "partition_number m =
    (if m = 1 then 18 else if m = 2 then 27 else if m = 3 then 36 else if m = 4 then 45
     else if m = 5 then 54 else if m = 6 then 63 else if m = 7 then 72 else if m = 8 then 81
     else if m = 9 then 99 else if m = 10 then 108 else if m = 11 then 117
     else if m = 12 then 126 else 0)"

subsection \<open>Data classes\<close>

record GoldbachLevel =
  level_pct :: int
  level_price :: real
  level_layer :: "Layer option"
  is_goldbach_level :: bool

record PO3Range =
  range_num :: int
  low :: real
  high :: real
  size_po3 :: int
  levels :: "GoldbachLevel list"

record BiasAnalysis =
  bias :: Bias
  confidence :: int
  gip_level :: int
  position :: real
  layer :: Layer

text \<open>
  A \<open>datetime\<close> down to the minute (seconds and microseconds are carried unchanged by
  every operation here and read by none).
\<close>

record datetime =
  dt_year :: nat
  dt_month :: nat
  dt_day :: nat
  dt_hour :: nat
  dt_minute :: nat

record GoldbachTime =
  gt_time :: datetime
  gt_hour :: nat
  gt_minute :: nat
  sum_value :: nat
  is_goldbach :: bool
  nearest_goldbach :: nat

record PartitionInfo =
  pi_month :: nat
  pi_day :: nat
  partition_start :: nat
  pi_partition_number :: nat
  partition_day :: nat
  is_key_day :: bool

record Target =
  target_name :: string
  target_level :: int
  target_price :: real

text \<open>The invalidation dictionary; the empty dictionary has neither key.\<close>

record Invalidation =
  inv_level :: "int option"
  inv_price :: "real option"

record TradeSetup =
  setup_id :: int
  setup_timestamp :: datetime
  setup_symbol :: string
  setup_plan :: TradePlan
  setup_bias :: Bias
  setup_confidence :: int
  entry_zone :: "real \<times> real"
  setup_entry_price :: real
  setup_stop_loss :: real
  targets :: "Target list"
  invalidation :: Invalidation
  goldbach_time_confirm :: bool
  setup_amd_cycle :: AMDCycle
  monthly_partition_day :: nat
  setup_signal_strength :: string

text \<open>The engine object: its two integer attributes.\<close>

record GoldbachEngine =
  default_po3 :: int
  setup_counter :: int

subsection \<open>PO3 range calculations\<close>

definition get_level_price :: "PO3Range \<Rightarrow> int \<Rightarrow> real" where
  "get_level_price r pct = low r + (real_of_int pct / 100) * real_of_int (size_po3 r)"

definition get_position :: "PO3Range \<Rightarrow> real \<Rightarrow> real" where
  "get_position r price =
    (if price < low r then 0
     else if price > high r then 100
     else ((price - low r) / real_of_int (size_po3 r)) * 100)"

text \<open>Python's \<open>int(x)\<close> on a float truncates towards zero.\<close>

definition py_int :: "real \<Rightarrow> int" where
  "py_int x = (if 0 \<le> x then \<lfloor>x\<rfloor> else \<lceil>x\<rceil>)"

text \<open>\<open>po3_size or self.default_po3\<close>: \<open>None\<close> and \<open>0\<close> are both falsy.\<close>

definition po3_or_default :: "GoldbachEngine \<Rightarrow> int option \<Rightarrow> int" where
  "po3_or_default e po3_size =
    (case po3_size of None \<Rightarrow> default_po3 e
     | Some s \<Rightarrow> if s = 0 then default_po3 e else s)"

definition calculate_levels :: "real \<Rightarrow> int \<Rightarrow> GoldbachLevel list" where
  "calculate_levels lo sz =
    map (\<lambda>(pct, lay).
          \<lparr>level_pct = pct,
           level_price = lo + (real_of_int pct / 100) * real_of_int sz,
           level_layer = lay,
           is_goldbach_level = (pct \<notin> set [23, 35, 65, 77])\<rparr>) GOLDBACH_LEVELS"

definition calculate_range :: "GoldbachEngine \<Rightarrow> real \<Rightarrow> int option \<Rightarrow> py_error + PO3Range" where
  "calculate_range e price po3_size =
    (let po3 = po3_or_default e po3_size;
         price_int = (if price < 100 then py_int (price * 10000) else py_int price)
     in if po3 = 0 then Inl ZeroDivisionError
        else
          let rnum = price_int div po3;
              range_low = rnum * po3;
              range_high = range_low + po3;
              lo = (if price < 100 then real_of_int range_low / 10000 else real_of_int range_low);
              hi = (if price < 100 then real_of_int range_high / 10000 else real_of_int range_high)
          in Inr \<lparr>range_num = rnum, low = lo, high = hi, size_po3 = po3,
                  levels = calculate_levels lo po3\<rparr>)"

definition get_layer_for_position :: "real \<Rightarrow> Layer option" where
  "get_layer_for_position pos =
    (if pos \<le> 17 \<or> pos \<ge> 83 then Some LIQUIDITY
     else if (29 \<le> pos \<and> pos \<le> 35) \<or> (65 \<le> pos \<and> pos \<le> 71) then Some FLOW
     else if 41 \<le> pos \<and> pos \<le> 59 then Some REBALANCE
     else None)"

subsection \<open>Bias detection\<close>

definition trend_adjust :: "int \<Rightarrow> Bias \<Rightarrow> int \<Rightarrow> int" where
  "trend_adjust trend_days b conf =
    (if trend_days \<noteq> 0 then
       (if (trend_days > 0 \<and> b = BULLISH) \<or> (trend_days < 0 \<and> b = BEARISH)
        then conf + min (\<bar>trend_days\<bar> * 2) 10
        else conf - min (\<bar>trend_days\<bar> * 2) 10)
     else conf)"

definition analyze_bias :: "GoldbachEngine \<Rightarrow> real \<Rightarrow> int option \<Rightarrow> int \<Rightarrow> py_error + BiasAnalysis" where
  "analyze_bias e price po3_size trend_days =
    (case calculate_range e price po3_size of
       Inl err \<Rightarrow> Inl err
     | Inr po3_range \<Rightarrow>
        let pos = get_position po3_range price;
            lay = get_layer_for_position pos;
            (b, gip, conf1) =
              (if pos \<le> 17 then (BULLISH, 17, 50 + 15)
               else if pos \<ge> 83 then (BEARISH, 83, 50 + 15)
               else if pos < 50 then (BULLISH, 17, 50)
               else if pos > 50 then (BEARISH, 83, 50)
               else (NEUTRAL, 50, 50));
            conf2 = (if lay = Some LIQUIDITY then conf1 + 10
                     else if lay = Some FLOW then conf1 + 5
                     else conf1);
            conf3 = trend_adjust trend_days b conf2;
            conf4 = max 40 (min 85 conf3)
        in Inr \<lparr>bias = b, confidence = conf4, gip_level = gip, position = pos,
                layer = (case lay of Some l \<Rightarrow> l | None \<Rightarrow> FLOW)\<rparr>)"

subsection \<open>Goldbach time\<close>

text \<open>\<open>min(xs, key=f)\<close> on a non-empty list: the first element with the least key.\<close>

fun py_min_by :: "('a \<Rightarrow> int) \<Rightarrow> 'a \<Rightarrow> 'a list \<Rightarrow> 'a" where
  "py_min_by f best [] = best"
| "py_min_by f best (x # xs) = py_min_by f (if f x < f best then x else best) xs"

definition analyze_goldbach_time :: "datetime \<Rightarrow> GoldbachTime" where
  "analyze_goldbach_time t =
    (let h = dt_hour t; m = dt_minute t; s = h + m
     in \<lparr>gt_time = t, gt_hour = h, gt_minute = m, sum_value = s,
         is_goldbach = (s \<in> set GOLDBACH_NUMBERS),
         nearest_goldbach =
           py_min_by (\<lambda>x. \<bar>int x - int s\<bar>) (hd GOLDBACH_NUMBERS) (tl GOLDBACH_NUMBERS)\<rparr>)"

text \<open>
  \<open>current + timedelta(minutes=1)\<close> of the standard library, on the proleptic Gregorian
  calendar: the addition raises \<open>OverflowError\<close> past the last minute of year 9999.
\<close>

definition is_leap :: "nat \<Rightarrow> bool" where
  "is_leap y = (y mod 4 = 0 \<and> (y mod 100 \<noteq> 0 \<or> y mod 400 = 0))"

definition days_in_month :: "nat \<Rightarrow> nat \<Rightarrow> nat" where
  "days_in_month y m =
    (if m = 2 then (if is_leap y then 29 else 28)
     else if m = 4 \<or> m = 6 \<or> m = 9 \<or> m = 11 then 30 else 31)"

definition valid_datetime :: "datetime \<Rightarrow> bool" where
  "valid_datetime t =
    (1 \<le> dt_year t \<and> dt_year t \<le> 9999 \<and> 1 \<le> dt_month t \<and> dt_month t \<le> 12 \<and>
     1 \<le> dt_day t \<and> dt_day t \<le> days_in_month (dt_year t) (dt_month t) \<and>
     dt_hour t < 24 \<and> dt_minute t < 60)"

definition add_minute :: "datetime \<Rightarrow> py_error + datetime" where
  "add_minute t =
    (if dt_minute t < 59 then Inr (t\<lparr>dt_minute := dt_minute t + 1\<rparr>)
     else if dt_hour t < 23 then Inr (t\<lparr>dt_hour := dt_hour t + 1, dt_minute := 0\<rparr>)
     else if dt_day t < days_in_month (dt_year t) (dt_month t)
       then Inr (t\<lparr>dt_day := dt_day t + 1, dt_hour := 0, dt_minute := 0\<rparr>)
     else if dt_month t < 12
       then Inr (t\<lparr>dt_month := dt_month t + 1, dt_day := 1, dt_hour := 0, dt_minute := 0\<rparr>)
     else if dt_year t < 9999
       then Inr (t\<lparr>dt_year := dt_year t + 1, dt_month := 1, dt_day := 1,
                   dt_hour := 0, dt_minute := 0\<rparr>)
     else Inl OverflowError)"

text \<open>
  The \<open>while len(results) < count\<close> loop of \<open>get_next_goldbach_times\<close>; \<open>None\<close> is
  a loop that never returns.
\<close>

partial_function (option) next_goldbach_loop ::
  "int \<Rightarrow> datetime \<Rightarrow> GoldbachTime list \<Rightarrow> (py_error + GoldbachTime list) option" where
  "next_goldbach_loop cnt current results =
    (if int (length results) < cnt then
       (case add_minute current of
          Inl err \<Rightarrow> Some (Inl err)
        | Inr c \<Rightarrow>
            next_goldbach_loop cnt c
              (if is_goldbach (analyze_goldbach_time c)
               then results @ [analyze_goldbach_time c] else results))
     else Some (Inr results))"

definition get_next_goldbach_times ::
  "datetime \<Rightarrow> int \<Rightarrow> (py_error + GoldbachTime list) option" where
  "get_next_goldbach_times from_time cnt = next_goldbach_loop cnt from_time []"

subsection \<open>AMD cycles and monthly partitions\<close>

definition get_amd_cycle :: "datetime \<Rightarrow> AMDCycle" where
  "get_amd_cycle t =
    (let hour = dt_hour t
     in if (20 \<le> hour \<and> hour \<le> 23) \<or> (0 \<le> hour \<and> hour < 3) then ASIAN
        else if 3 \<le> hour \<and> hour < 9 then MANIPULATION
        else if 9 \<le> hour \<and> hour < 12 then DISTRIBUTION_1
        else DISTRIBUTION_2)"

definition get_monthly_partition_info :: "datetime \<Rightarrow> PartitionInfo" where
  "get_monthly_partition_info d =
    (let month = dt_month d; day = dt_day d;
         start_day = partition_start_day month;
         pday = (if day \<ge> start_day then day - start_day + 1 else 0)
     in \<lparr>pi_month = month, pi_day = day, partition_start = start_day,
         pi_partition_number = partition_number month, partition_day = pday,
         is_key_day = (pday \<in> set [3, 11, 17])\<rparr>)"

subsection \<open>Trade setup generation\<close>

definition mk_target :: "PO3Range \<Rightarrow> string \<Rightarrow> int \<Rightarrow> Target" where
  "mk_target r nm lvl = \<lparr>target_name = nm, target_level = lvl, target_price = get_level_price r lvl\<rparr>"

definition mk_invalidation :: "PO3Range \<Rightarrow> int \<Rightarrow> Invalidation" where
  "mk_invalidation r lvl = \<lparr>inv_level = Some lvl, inv_price = Some (get_level_price r lvl)\<rparr>"

definition determine_trade_plan ::
  "PO3Range \<Rightarrow> real \<Rightarrow> BiasAnalysis
    \<Rightarrow> TradePlan option \<times> (real \<times> real) \<times> Target list \<times> Invalidation" where
  "determine_trade_plan r pos b =
    (if pos \<le> 17 \<and> bias b = BULLISH then
       (Some EINSTEIN, (get_level_price r 11, get_level_price r 17),
        [mk_target r ''T1 (Partial)'' 47, mk_target r ''T2 (Full)'' 59],
        mk_invalidation r 7)
     else if pos \<ge> 83 \<and> bias b = BEARISH then
       (Some EINSTEIN, (get_level_price r 83, get_level_price r 89),
        [mk_target r ''T1 (Partial)'' 53, mk_target r ''T2 (Full)'' 41],
        mk_invalidation r 93)
     else if pos \<le> 11 \<and> bias b = BULLISH then
       (Some LIQUIDITY_PLAN, (get_level_price r 3, get_level_price r 11),
        [mk_target r ''T1'' 29, mk_target r ''T2'' 50],
        \<lparr>inv_level = Some 0, inv_price = Some (low r)\<rparr>)
     else if pos \<ge> 89 \<and> bias b = BEARISH then
       (Some LIQUIDITY_PLAN, (get_level_price r 89, get_level_price r 97),
        [mk_target r ''T1'' 71, mk_target r ''T2'' 50],
        \<lparr>inv_level = Some 100, inv_price = Some (high r)\<rparr>)
     else if 29 \<le> pos \<and> pos \<le> 35 \<and> bias b = BULLISH then
       (Some FLOW_CONTINUATION, (get_level_price r 29, get_level_price r 35),
        [mk_target r ''T1'' 50, mk_target r ''T2'' 71],
        mk_invalidation r 17)
     else if 65 \<le> pos \<and> pos \<le> 71 \<and> bias b = BEARISH then
       (Some FLOW_CONTINUATION, (get_level_price r 65, get_level_price r 71),
        [mk_target r ''T1'' 50, mk_target r ''T2'' 29],
        mk_invalidation r 83)
     else if 41 \<le> pos \<and> pos \<le> 59 then
       (if pos \<le> 50 then
          (Some REBALANCE_PLAN, (get_level_price r 41, get_level_price r 47),
           [mk_target r ''T1'' 53, mk_target r ''T2'' 59],
           mk_invalidation r 35)
        else
          (Some REBALANCE_PLAN, (get_level_price r 53, get_level_price r 59),
           [mk_target r ''T1'' 47, mk_target r ''T2'' 41],
           mk_invalidation r 65))
     else (None, (0, 0), [], \<lparr>inv_level = None, inv_price = None\<rparr>))"

definition calculate_signal_strength ::
  "BiasAnalysis \<Rightarrow> GoldbachTime \<Rightarrow> AMDCycle \<Rightarrow> PartitionInfo \<Rightarrow> string" where
  "calculate_signal_strength b gb_time amd part_info =
    (let score = (if confidence b \<ge> 70 then 2 else if confidence b \<ge> 60 then 1 else 0)
               + (if is_goldbach gb_time then 2 else 0)
               + (if amd \<in> set [MANIPULATION, DISTRIBUTION_1] then 1 else 0)
               + (if is_key_day part_info then 1 else 0)
               + (if layer b = LIQUIDITY then 1 else (0::int))
     in if score \<ge> 6 then ''PERFECT''
        else if score \<ge> 5 then ''EXCELLENT''
        else if score \<ge> 4 then ''STRONG''
        else if score \<ge> 2 then ''MEDIUM''
        else ''WEAK'')"

text \<open>
  \<open>generate_setup\<close> mutates the engine (the counter is incremented before anything can
  raise), so the model returns the result together with the engine afterwards. The
  \<open>time\<close> argument is the timestamp the call works with: the caller's, or the clock
  reading taken when none is passed.
\<close>

definition generate_setup ::
  "GoldbachEngine \<Rightarrow> real \<Rightarrow> string \<Rightarrow> int option \<Rightarrow> int \<Rightarrow> datetime
    \<Rightarrow> (py_error + TradeSetup option) \<times> GoldbachEngine" where
  "generate_setup e price symbol po3_size trend_days time =
    (let e1 = e\<lparr>setup_counter := setup_counter e + 1\<rparr>
     in case calculate_range e1 price po3_size of
          Inl err \<Rightarrow> (Inl err, e1)
        | Inr po3_range \<Rightarrow>
           (case analyze_bias e1 price po3_size trend_days of
              Inl err \<Rightarrow> (Inl err, e1)
            | Inr bias_analysis \<Rightarrow>
               let pos = get_position po3_range price;
                   gb_time = analyze_goldbach_time time;
                   amd = get_amd_cycle time;
                   partition_info = get_monthly_partition_info time;
                   (plan, ez, tgts, inval) = determine_trade_plan po3_range pos bias_analysis
               in (case plan of
                     None \<Rightarrow> (Inr None, e1)
                   | Some pl \<Rightarrow>
                      let entry_price = (fst ez + snd ez) / 2;
                          stop_loss =
                            (if bias bias_analysis = BULLISH
                             then (case inv_price inval of Some p \<Rightarrow> p | None \<Rightarrow> fst ez - 20)
                             else (case inv_price inval of Some p \<Rightarrow> p | None \<Rightarrow> snd ez + 20));
                          signal_strength =
                            calculate_signal_strength bias_analysis gb_time amd partition_info
                      in (Inr (Some
                            \<lparr>setup_id = setup_counter e1, setup_timestamp = time,
                             setup_symbol = symbol, setup_plan = pl,
                             setup_bias = bias bias_analysis,
                             setup_confidence = confidence bias_analysis,
                             entry_zone = ez, setup_entry_price = entry_price,
                             setup_stop_loss = stop_loss, targets = tgts,
                             invalidation = inval,
                             goldbach_time_confirm = is_goldbach gb_time,
                             setup_amd_cycle = amd,
                             monthly_partition_day = partition_day partition_info,
                             setup_signal_strength = signal_strength\<rparr>), e1))))"

section \<open>The backtesting engine (app/backtester.py)\<close>

subsection \<open>Data classes\<close>

text \<open>
  A label of the data frame's index: a timestamp, or any other value (an integer position,
  say), for which \<open>isinstance(current_date, datetime)\<close> is false.
\<close>

datatype index_label = Timestamp datetime | Label int

record Bar =
  bar_date :: index_label
  bar_open :: real
  bar_high :: real
  bar_low :: real
  bar_close :: real

record BacktestConfig =
  initial_capital :: real
  position_size_pct :: real
  max_positions :: int
  commission :: real
  slippage :: real
  use_stop_loss :: bool
  use_trailing_stop :: bool
  trailing_stop_pct :: real
  min_signal_strength :: string
  allowed_plans :: "TradePlan list"
  allowed_amd_cycles :: "string list"
  require_goldbach_time :: bool
  max_bars_in_trade :: int
  po3_size :: int

text \<open>The dictionary \<open>current_trade\<close> of \<open>run_backtest\<close>.\<close>

record OpenTrade =
  ot_id :: int
  entry_bar :: nat
  entry_time :: index_label
  ot_symbol :: string
  direction :: string
  ot_plan :: TradePlan
  entry_price :: real
  stop_loss :: real
  target_1 :: real
  target_2 :: real
  position_size :: real
  ot_signal_strength :: string
  ot_goldbach_time :: bool
  ot_amd_cycle :: string
  mae :: real
  mfe :: real

record BacktestTrade =
  bt_id :: int
  bt_entry_time :: index_label
  bt_exit_time :: index_label
  bt_symbol :: string
  bt_direction :: string
  bt_plan :: TradePlan
  bt_entry_price :: real
  bt_exit_price :: real
  bt_stop_loss :: real
  bt_target_1 :: real
  bt_target_2 :: real
  bt_position_size :: real
  pnl :: real
  pnl_pct :: real
  result :: string
  exit_reason :: string
  bars_held :: int
  bt_mae :: real
  bt_mfe :: real
  bt_signal_strength :: string
  bt_goldbach_time :: bool
  bt_amd_cycle :: string

text \<open>
  The local variables of \<open>run_backtest\<close> together with \<open>self.trades\<close> and
  \<open>self.engine\<close>.
\<close>

record RunState =
  trades :: "BacktestTrade list"
  capital :: real
  equity_curve :: "real list"
  in_trade :: bool
  current_trade :: "OpenTrade option"
  trade_id :: int
  engine :: GoldbachEngine

subsection \<open>Filters, exits and closing\<close>

definition strength_order :: "string list" where
  "strength_order = [''WEAK'', ''MEDIUM'', ''STRONG'', ''EXCELLENT'', ''PERFECT'']"

text \<open>\<open>xs.index(x)\<close>: the first position of \<open>x\<close>; \<open>ValueError\<close> when there is none.\<close>

fun py_index :: "'a list \<Rightarrow> 'a \<Rightarrow> py_error + nat" where
  "py_index [] x = Inl ValueError"
| "py_index (y # ys) x =
    (if y = x then Inr 0
     else (case py_index ys x of Inl err \<Rightarrow> Inl err | Inr i \<Rightarrow> Inr (Suc i)))"

definition filter_setup :: "BacktestConfig \<Rightarrow> TradeSetup \<Rightarrow> py_error + bool" where
  "filter_setup cfg setup =
    (case py_index strength_order (min_signal_strength cfg) of
       Inl err \<Rightarrow> Inl err
     | Inr min_idx \<Rightarrow>
        (case py_index strength_order (setup_signal_strength setup) of
           Inl err \<Rightarrow> Inl err
         | Inr current_idx \<Rightarrow>
            Inr (if current_idx < min_idx then False
                 else if setup_plan setup \<notin> set (allowed_plans cfg) then False
                 else if amd_value (setup_amd_cycle setup) \<notin> set (allowed_amd_cycles cfg)
                   then False
                 else if require_goldbach_time cfg \<and> \<not> goldbach_time_confirm setup
                   then False
                 else True)))"

definition check_exit ::
  "BacktestConfig \<Rightarrow> OpenTrade \<Rightarrow> real \<Rightarrow> real \<Rightarrow> real \<Rightarrow> nat \<Rightarrow> (real \<times> string) option" where
  "check_exit cfg trade hi lo cl current_bar =
    (let held = int current_bar - int (entry_bar trade)
     in if held \<ge> max_bars_in_trade cfg then Some (cl, ''TIME_EXIT'')
        else if direction trade = ''LONG'' then
          (if use_stop_loss cfg \<and> lo \<le> stop_loss trade
             then Some (stop_loss trade, ''STOP_LOSS'')
           else if hi \<ge> target_2 trade then Some (target_2 trade, ''TARGET_2'')
           else if hi \<ge> target_1 trade then Some (target_1 trade, ''TARGET_1'')
           else None)
        else
          (if use_stop_loss cfg \<and> hi \<ge> stop_loss trade
             then Some (stop_loss trade, ''STOP_LOSS'')
           else if lo \<le> target_2 trade then Some (target_2 trade, ''TARGET_2'')
           else if lo \<le> target_1 trade then Some (target_1 trade, ''TARGET_1'')
           else None))"

definition close_trade ::
  "BacktestConfig \<Rightarrow> OpenTrade \<Rightarrow> index_label \<Rightarrow> real \<Rightarrow> string \<Rightarrow> int \<Rightarrow> real \<Rightarrow> real
    \<Rightarrow> py_error + BacktestTrade" where
  "close_trade cfg trade exit_time exit_price reason held mae_v mfe_v =
    (let pnl0 = (if direction trade = ''LONG''
                 then (exit_price - entry_price trade) * position_size trade
                 else (entry_price trade - exit_price) * position_size trade);
         pnl1 = pnl0 - commission cfg * 2;
         pnl2 = pnl1 - slippage cfg * 2
     in if position_size trade = 0 then Inl ZeroDivisionError
        else
          Inr \<lparr>bt_id = ot_id trade, bt_entry_time = entry_time trade, bt_exit_time = exit_time,
               bt_symbol = ot_symbol trade, bt_direction = direction trade,
               bt_plan = ot_plan trade, bt_entry_price = entry_price trade,
               bt_exit_price = exit_price, bt_stop_loss = stop_loss trade,
               bt_target_1 = target_1 trade, bt_target_2 = target_2 trade,
               bt_position_size = position_size trade, pnl = pnl2,
               pnl_pct = (pnl2 / position_size trade) * 100,
               result = (if pnl2 > 0 then ''WIN'' else if pnl2 < 0 then ''LOSS''
                         else ''BREAKEVEN''),
               exit_reason = reason, bars_held = held, bt_mae = mae_v, bt_mfe = mfe_v,
               bt_signal_strength = ot_signal_strength trade,
               bt_goldbach_time = ot_goldbach_time trade,
               bt_amd_cycle = ot_amd_cycle trade\<rparr>)"

subsection \<open>The bar loop of \<open>run_backtest\<close>\<close>

definition update_excursions :: "OpenTrade \<Rightarrow> real \<Rightarrow> real \<Rightarrow> OpenTrade" where
  "update_excursions trade hi lo =
    (if direction trade = ''LONG''
     then trade\<lparr>mae := min (mae trade) (lo - entry_price trade),
                mfe := max (mfe trade) (hi - entry_price trade)\<rparr>
     else trade\<lparr>mae := min (mae trade) (entry_price trade - hi),
                mfe := max (mfe trade) (entry_price trade - lo)\<rparr>)"

definition open_trade :: "BacktestConfig \<Rightarrow> string \<Rightarrow> nat \<Rightarrow> index_label \<Rightarrow> int \<Rightarrow> real
    \<Rightarrow> TradeSetup \<Rightarrow> OpenTrade" where
  "open_trade cfg symbol i current_date tid cap setup =
    \<lparr>ot_id = tid, entry_bar = i, entry_time = current_date, ot_symbol = symbol,
     direction = (if setup_bias setup = BULLISH then ''LONG'' else ''SHORT''),
     ot_plan = setup_plan setup, entry_price = setup_entry_price setup,
     stop_loss = setup_stop_loss setup,
     target_1 = (if targets setup \<noteq> [] then target_price (targets setup ! 0)
                 else setup_entry_price setup),
     target_2 = (if length (targets setup) > 1 then target_price (targets setup ! 1)
                 else setup_entry_price setup),
     position_size = cap * position_size_pct cfg / 100,
     ot_signal_strength = setup_signal_strength setup,
     ot_goldbach_time = goldbach_time_confirm setup,
     ot_amd_cycle = amd_value (setup_amd_cycle setup),
     mae = 0, mfe = 0\<rparr>"

text \<open>
  The second half of the loop body (\<open>if not in_trade\<close>). \<open>clock\<close> is the reading of
  \<open>datetime.now()\<close> for a bar whose label is not a timestamp.
\<close>

definition look_for_entry ::
  "BacktestConfig \<Rightarrow> string \<Rightarrow> datetime \<Rightarrow> Bar list \<Rightarrow> nat \<Rightarrow> RunState \<Rightarrow> py_error + RunState" where
  "look_for_entry cfg symbol clock data i s =
    (if \<not> in_trade s then
       (let current_date = bar_date (data ! i);
            prev_close = bar_close (data ! (i - 1));
            (res, e1) = generate_setup (engine s) prev_close symbol (Some (po3_size cfg)) 0
                          (case current_date of Timestamp t \<Rightarrow> t | Label _ \<Rightarrow> clock)
        in case res of
             Inl err \<Rightarrow> Inl err
           | Inr None \<Rightarrow> Inr (s\<lparr>engine := e1\<rparr>)
           | Inr (Some setup) \<Rightarrow>
              (case filter_setup cfg setup of
                 Inl err \<Rightarrow> Inl err
               | Inr False \<Rightarrow> Inr (s\<lparr>engine := e1\<rparr>)
               | Inr True \<Rightarrow>
                  Inr (s\<lparr>engine := e1, trade_id := trade_id s + 1,
                         current_trade :=
                           Some (open_trade cfg symbol i current_date (trade_id s + 1)
                                   (capital s) setup),
                         in_trade := True\<rparr>)))
     else Inr s)"

text \<open>One iteration of \<open>for i in range(1, len(data))\<close>.\<close>

definition bar_step ::
  "BacktestConfig \<Rightarrow> string \<Rightarrow> (nat \<Rightarrow> datetime) \<Rightarrow> Bar list \<Rightarrow> nat \<Rightarrow> RunState
    \<Rightarrow> py_error + RunState" where
  "bar_step cfg symbol now data i s =
    (let cur = data ! i
     in case (in_trade s, current_trade s) of
          (True, Some tr) \<Rightarrow>
            (case check_exit cfg tr (bar_high cur) (bar_low cur) (bar_close cur) i of
               Some (price, reason) \<Rightarrow>
                 (case close_trade cfg tr (bar_date cur) price reason
                         (int i - int (entry_bar tr)) (mae tr) (mfe tr) of
                    Inl err \<Rightarrow> Inl err
                  | Inr trade \<Rightarrow>
                      Inr (s\<lparr>trades := trades s @ [trade],
                             capital := capital s + pnl trade,
                             equity_curve := equity_curve s @ [capital s + pnl trade],
                             in_trade := False, current_trade := None\<rparr>))
             | None \<Rightarrow>
                 look_for_entry cfg symbol (now i) data i
                   (s\<lparr>current_trade :=
                        Some (update_excursions tr (bar_high cur) (bar_low cur))\<rparr>))
        | _ \<Rightarrow> look_for_entry cfg symbol (now i) data i s)"

fun run_loop ::
  "BacktestConfig \<Rightarrow> string \<Rightarrow> (nat \<Rightarrow> datetime) \<Rightarrow> Bar list \<Rightarrow> nat list \<Rightarrow> RunState
    \<Rightarrow> py_error + RunState" where
  "run_loop cfg symbol now data [] s = Inr s"
| "run_loop cfg symbol now data (i # rest) s =
    (case bar_step cfg symbol now data i s of
       Inl err \<Rightarrow> Inl err
     | Inr s1 \<Rightarrow> run_loop cfg symbol now data rest s1)"

text \<open>The block after the loop: \<open>Close any remaining trade\<close>.\<close>

definition close_remaining :: "BacktestConfig \<Rightarrow> Bar list \<Rightarrow> RunState \<Rightarrow> py_error + RunState" where
  "close_remaining cfg data s =
    (case (in_trade s, current_trade s) of
       (True, Some tr) \<Rightarrow>
         (case close_trade cfg tr (bar_date (last data)) (bar_close (last data)) ''TIME_EXIT''
                 (int (length data) - int (entry_bar tr)) (mae tr) (mfe tr) of
            Inl err \<Rightarrow> Inl err
          | Inr trade \<Rightarrow>
              Inr (s\<lparr>trades := trades s @ [trade],
                     capital := capital s + pnl trade,
                     equity_curve := equity_curve s @ [capital s + pnl trade]\<rparr>))
     | _ \<Rightarrow> Inr s)"

definition initial_state :: "BacktestConfig \<Rightarrow> GoldbachEngine \<Rightarrow> RunState" where
  "initial_state cfg e =
    \<lparr>trades = [], capital = initial_capital cfg, equity_curve = [initial_capital cfg],
     in_trade = False, current_trade = None, trade_id = 0, engine = e\<rparr>"

text \<open>
  \<open>run_backtest\<close> up to the point where the statistics are computed from the ledger:
  the result is the state of the run there, \<open>trades\<close> being the ledger \<open>self.trades\<close>.
\<close>

definition run_backtest ::
  "BacktestConfig \<Rightarrow> GoldbachEngine \<Rightarrow> Bar list \<Rightarrow> string \<Rightarrow> (nat \<Rightarrow> datetime)
    \<Rightarrow> py_error + RunState" where
  "run_backtest cfg e data symbol now =
    (case run_loop cfg symbol now data [1..<length data] (initial_state cfg e) of
       Inl err \<Rightarrow> Inl err
     | Inr s \<Rightarrow> close_remaining cfg data s)"

subsection \<open>Monte Carlo simulation\<close>

text \<open>
  The inner loop over one shuffled sequence of P\&Ls; the state is \<open>(equity, peak, max_dd)\<close>.
  (Where \<open>peak\<close> is zero numpy yields \<open>nan\<close> or \<open>inf\<close> for the drawdown; the real
  division of the model does not, and nothing below is stated about drawdowns there.)
\<close>

fun mc_replay :: "real list \<Rightarrow> real \<times> real \<times> real \<Rightarrow> real \<times> real \<times> real" where
  "mc_replay [] st = st"
| "mc_replay (p # ps) (equity, peak, max_dd) =
    (let equity1 = equity + p;
         peak1 = (if equity1 > peak then equity1 else peak);
         dd = (peak1 - equity1) / peak1 * 100
     in mc_replay ps (equity1, peak1, max max_dd dd))"

definition mc_final_capital :: "real \<Rightarrow> real list \<Rightarrow> real" where
  "mc_final_capital initial shuffled = fst (mc_replay shuffled (initial, initial, 0))"

definition mc_max_drawdown :: "real \<Rightarrow> real list \<Rightarrow> real" where
  "mc_max_drawdown initial shuffled = snd (snd (mc_replay shuffled (initial, initial, 0)))"

definition np_mean :: "real list \<Rightarrow> real" where
  "np_mean xs = sum_list xs / real (length xs)"

text \<open>
  The returned dictionary, without the standard deviations and percentiles (they are
  computed from the same two lists and feed nothing else).
\<close>

record MonteCarloReport =
  final_capital_mean :: real
  final_capital_min :: real
  final_capital_max :: real
  max_drawdown_mean :: real
  max_drawdown_min :: real
  max_drawdown_max :: real
  risk_of_ruin :: real

text \<open>
  \<open>permutation i\<close> is the sequence \<open>np.random.permutation(pnls)\<close> returns in simulation
  \<open>i\<close>. The empty dictionary returned for an empty ledger is \<open>None\<close>; with no
  simulation at all, \<open>np.min\<close> of an empty list raises \<open>ValueError\<close>.
\<close>

definition monte_carlo ::
  "BacktestConfig \<Rightarrow> BacktestTrade list \<Rightarrow> int \<Rightarrow> (nat \<Rightarrow> real list)
    \<Rightarrow> py_error + MonteCarloReport option" where
  "monte_carlo cfg ledger num_simulations permutation =
    (if ledger = [] then Inr None
     else
       let sims = map permutation [0..<nat num_simulations];
           final_capitals = map (mc_final_capital (initial_capital cfg)) sims;
           max_drawdowns = map (mc_max_drawdown (initial_capital cfg)) sims
       in if final_capitals = [] then Inl ValueError
          else Inr (Some
            \<lparr>final_capital_mean = np_mean final_capitals,
             final_capital_min = Min (set final_capitals),
             final_capital_max = Max (set final_capitals),
             max_drawdown_mean = np_mean max_drawdowns,
             max_drawdown_min = Min (set max_drawdowns),
             max_drawdown_max = Max (set max_drawdowns),
             risk_of_ruin =
               real (length (filter (\<lambda>fc. fc \<le> 0) final_capitals))
                 / real_of_int num_simulations * 100\<rparr>))"

section \<open>The rule table of the specification, and example inputs\<close>

text \<open>
  The plan table as the specification words it, one row per rule: the guard on position
  and bias, then the plan, the levels of the entry zone, the levels of the two targets and
  the invalidation level (the bracket's low and high are levels 0 and 100). Rule 7 is two
  rows. \<open>first_match\<close> tests the rows top to bottom and returns at the first hit.
\<close>

type_synonym rule_outcome = "TradePlan \<times> (int \<times> int) \<times> (int \<times> int) \<times> int"

definition spec_rule_table :: "((real \<Rightarrow> Bias \<Rightarrow> bool) \<times> rule_outcome) list" where
  "spec_rule_table =
    [(\<lambda>pos b. pos \<le> 17 \<and> b = BULLISH, (EINSTEIN, (11, 17), (47, 59), 7)),
     (\<lambda>pos b. pos \<ge> 83 \<and> b = BEARISH, (EINSTEIN, (83, 89), (53, 41), 93)),
     (\<lambda>pos b. pos \<le> 11 \<and> b = BULLISH, (LIQUIDITY_PLAN, (3, 11), (29, 50), 0)),
     (\<lambda>pos b. pos \<ge> 89 \<and> b = BEARISH, (LIQUIDITY_PLAN, (89, 97), (71, 50), 100)),
     (\<lambda>pos b. 29 \<le> pos \<and> pos \<le> 35 \<and> b = BULLISH, (FLOW_CONTINUATION, (29, 35), (50, 71), 17)),
     (\<lambda>pos b. 65 \<le> pos \<and> pos \<le> 71 \<and> b = BEARISH, (FLOW_CONTINUATION, (65, 71), (50, 29), 83)),
     (\<lambda>pos b. 41 \<le> pos \<and> pos \<le> 59 \<and> pos \<le> 50, (REBALANCE_PLAN, (41, 47), (53, 59), 35)),
     (\<lambda>pos b. 41 \<le> pos \<and> pos \<le> 59, (REBALANCE_PLAN, (53, 59), (47, 41), 65))]"

fun first_match :: "(('a \<Rightarrow> 'b \<Rightarrow> bool) \<times> 'c) list \<Rightarrow> 'a \<Rightarrow> 'b \<Rightarrow> 'c option" where
  "first_match [] x y = None"
| "first_match ((guard, out) # rules) x y = (if guard x y then Some out else first_match rules x y)"

text \<open>
  What \<open>_determine_trade_plan\<close> returned, for comparison with a row: the plan, the entry
  zone, the levels and prices of the targets, the invalidation level; \<open>None\<close> for no plan.
\<close>

definition plan_outcome ::
  "TradePlan option \<times> (real \<times> real) \<times> Target list \<times> Invalidation
    \<Rightarrow> (TradePlan \<times> (real \<times> real) \<times> int list \<times> real list \<times> int option) option" where
  "plan_outcome res =
    (case res of (plan, ez, tgts, inval) \<Rightarrow>
       (case plan of None \<Rightarrow> None
        | Some pl \<Rightarrow> Some (pl, ez, map target_level tgts, map target_price tgts, inv_level inval)))"

definition rule_outcome_prices ::
  "PO3Range \<Rightarrow> rule_outcome \<Rightarrow> TradePlan \<times> (real \<times> real) \<times> int list \<times> real list \<times> int option" where
  "rule_outcome_prices r out =
    (case out of (pl, (ea, eb), (ta, tb), iv) \<Rightarrow>
       (pl, (get_level_price r ea, get_level_price r eb), [ta, tb],
        [get_level_price r ta, get_level_price r tb], Some iv))"

text \<open>Concrete inputs: the defaults of the configuration, the module's test engine.\<close>

definition example_config :: BacktestConfig where
  "example_config =
    \<lparr>initial_capital = 10000, position_size_pct = 1, max_positions = 1, commission = 0,
     slippage = 0, use_stop_loss = True, use_trailing_stop = False, trailing_stop_pct = 1/2,
     min_signal_strength = ''MEDIUM'',
     allowed_plans = [EINSTEIN, LIQUIDITY_PLAN, FLOW_CONTINUATION, FLOW_REJECTION,
                      REBALANCE_PLAN, STOP_RUN],
     allowed_amd_cycles = [''M'', ''D1''], require_goldbach_time = False,
     max_bars_in_trade = 50, po3_size = 729\<rparr>"

definition example_long_trade :: OpenTrade where
  "example_long_trade =
    \<lparr>ot_id = 1, entry_bar = 1, entry_time = Label 1, ot_symbol = ''NQ'',
     direction = ''LONG'', ot_plan = EINSTEIN, entry_price = 100, stop_loss = 90,
     target_1 = 110, target_2 = 120, position_size = 100,
     ot_signal_strength = ''MEDIUM'', ot_goldbach_time = False, ot_amd_cycle = ''M'',
     mae = 0, mfe = 0\<rparr>"

definition example_range :: PO3Range where
  "example_range = \<lparr>range_num = 29, low = 21141, high = 21870, size_po3 = 729, levels = []\<rparr>"

definition example_bullish :: BiasAnalysis where
  "example_bullish =
    \<lparr>bias = BULLISH, confidence = 75, gip_level = 17, position = 15, layer = LIQUIDITY\<rparr>"

definition example_engine :: GoldbachEngine where
  "example_engine = \<lparr>default_po3 = 729, setup_counter = 0\<rparr>"

text \<open>
  A sequence of \<open>generate_setup\<close> calls on one engine instance, each call given by its
  arguments, and the ids of the setups such a sequence returned, in call order.
\<close>

type_synonym setup_call = "real \<times> string \<times> int option \<times> int \<times> datetime"

fun generate_setups ::
  "GoldbachEngine \<Rightarrow> setup_call list \<Rightarrow> (py_error + TradeSetup option) list \<times> GoldbachEngine" where
  "generate_setups e [] = ([], e)"
| "generate_setups e ((price, symbol, po3, td, t) # calls) =
    (let (res, e1) = generate_setup e price symbol po3 td t;
         (rest, e2) = generate_setups e1 calls
     in (res # rest, e2))"

fun returned_ids :: "(py_error + TradeSetup option) list \<Rightarrow> int list" where
  "returned_ids [] = []"
| "returned_ids (Inr (Some s) # rs) = setup_id s # returned_ids rs"
| "returned_ids (_ # rs) = returned_ids rs"

definition example_time :: datetime where
  "example_time = \<lparr>dt_year = 2024, dt_month = 3, dt_day = 8, dt_hour = 10, dt_minute = 30\<rparr>"

definition example_calls :: "setup_call list" where
  "example_calls = [(21200, ''NQ'', None, 0, example_time), (21300, ''NQ'', None, 0, example_time),
                    (21200, ''NQ'', None, 0, example_time)]"

text \<open>Readers of the Monte Carlo result.\<close>

definition mc_risk_of_ruin :: "py_error + MonteCarloReport option \<Rightarrow> real option" where
  "mc_risk_of_ruin res =
    (case res of Inr (Some rep) \<Rightarrow> Some (risk_of_ruin rep) | _ \<Rightarrow> None)"


text \<open>
  In the specification's words: the fraction of the simulations that end at or below zero
  capital, as the number of such simulations divided by the number of simulations.
\<close>

definition ruined_fraction :: "real \<Rightarrow> int \<Rightarrow> (nat \<Rightarrow> real list) \<Rightarrow> real" where
  "ruined_fraction initial num_simulations permutation =
    real (card {i. i < nat num_simulations \<and> mc_final_capital initial (permutation i) \<le> 0})
      / real_of_int num_simulations"

definition example_losing_trade :: BacktestTrade where
  "example_losing_trade =
    \<lparr>bt_id = 1, bt_entry_time = Label 1, bt_exit_time = Label 2, bt_symbol = ''NQ'',
     bt_direction = ''LONG'', bt_plan = EINSTEIN, bt_entry_price = 100, bt_exit_price = 90,
     bt_stop_loss = 90, bt_target_1 = 110, bt_target_2 = 120, bt_position_size = 10,
     pnl = - 100, pnl_pct = - 1000, result = ''LOSS'', exit_reason = ''STOP_LOSS'',
     bars_held = 1, bt_mae = 0, bt_mfe = 0, bt_signal_strength = ''MEDIUM'',
     bt_goldbach_time = False, bt_amd_cycle = ''M''\<rparr>"


definition example_small_config :: BacktestConfig where
  "example_small_config = example_config\<lparr>initial_capital := 100\<rparr>"

definition example_permutation :: "nat \<Rightarrow> real list" where
  "example_permutation i = [- 100]"



text \<open>
  Observations of a run. \<open>state_at k\<close> is the state after the first \<open>k\<close> iterations
  of the bar loop (the loop run on the first \<open>k\<close> indices), \<open>in_position_at k\<close> whether
  a position is open there, and \<open>position_flags\<close> the sequence of these flags over the
  run: before the loop, after each bar, and after the closing block, which leaves none
  open. \<open>count_opens\<close> counts the steps from FLAT to IN-POSITION in such a sequence,
  \<open>count_closes\<close> the steps back to FLAT.
\<close>

definition state_at ::
  "BacktestConfig \<Rightarrow> GoldbachEngine \<Rightarrow> Bar list \<Rightarrow> string \<Rightarrow> (nat \<Rightarrow> datetime) \<Rightarrow> nat
    \<Rightarrow> py_error + RunState" where
  "state_at cfg e data symbol now k =
    run_loop cfg symbol now data (take k [1..<length data]) (initial_state cfg e)"

definition in_position_at ::
  "BacktestConfig \<Rightarrow> GoldbachEngine \<Rightarrow> Bar list \<Rightarrow> string \<Rightarrow> (nat \<Rightarrow> datetime) \<Rightarrow> nat \<Rightarrow> bool" where
  "in_position_at cfg e data symbol now k =
    (case state_at cfg e data symbol now k of Inr s \<Rightarrow> in_trade s | Inl _ \<Rightarrow> False)"

definition position_flags ::
  "BacktestConfig \<Rightarrow> GoldbachEngine \<Rightarrow> Bar list \<Rightarrow> string \<Rightarrow> (nat \<Rightarrow> datetime) \<Rightarrow> bool list" where
  "position_flags cfg e data symbol now =
    map (in_position_at cfg e data symbol now) [0..<length data] @ [False]"

fun count_opens :: "bool list \<Rightarrow> nat" where
  "count_opens (a # b # rest) = (if \<not> a \<and> b then 1 else 0) + count_opens (b # rest)"
| "count_opens _ = 0"

fun count_closes :: "bool list \<Rightarrow> nat" where
  "count_closes (a # b # rest) = (if a \<and> \<not> b then 1 else 0) + count_closes (b # rest)"
| "count_closes _ = 0"

text \<open>The flag \<open>in_trade\<close> and the dictionary \<open>current_trade\<close> agree.\<close>

definition consistent :: "RunState \<Rightarrow> bool" where
  "consistent s = (in_trade s \<longleftrightarrow> current_trade s \<noteq> None)"

text \<open>A series of five bars on which a run opens two positions.\<close>

definition example_bars :: "Bar list" where
  "example_bars =
    [\<lparr>bar_date = Timestamp example_time, bar_open = 21190, bar_high = 21210, bar_low = 21180,
      bar_close = 21200\<rparr>,
     \<lparr>bar_date = Timestamp example_time, bar_open = 21245, bar_high = 21260, bar_low = 21240,
      bar_close = 21250\<rparr>,
     \<lparr>bar_date = Timestamp example_time, bar_open = 21250, bar_high = 21600, bar_low = 21250,
      bar_close = 21300\<rparr>,
     \<lparr>bar_date = Timestamp example_time, bar_open = 21300, bar_high = 21310, bar_low = 21190,
      bar_close = 21200\<rparr>,
     \<lparr>bar_date = Timestamp example_time, bar_open = 21245, bar_high = 21260, bar_low = 21240,
      bar_close = 21250\<rparr>]"

definition example_clock :: "nat \<Rightarrow> datetime" where
  "example_clock i = example_time"

text \<open>
  For the walk of \<open>get_next_goldbach_times\<close>: the minute of the day of a timestamp and
  whether a minute of the day is a Goldbach time (hour plus minute in the number list).
\<close>

definition minute_of_day :: "datetime \<Rightarrow> nat" where
  "minute_of_day t = dt_hour t * 60 + dt_minute t"

definition special_minute :: "nat \<Rightarrow> bool" where
  "special_minute m = (m div 60 + m mod 60 \<in> set GOLDBACH_NUMBERS)"

text \<open>
  The Goldbach times that the walk can still reach from a timestamp: the analyses of the
  minutes after it, up to the last representable minute 9999-12-31 23:59, that are Goldbach
  times, in order. The recursion ends because every added minute brings the timestamp
  closer to the last one.
\<close>

function goldbach_times_after :: "datetime \<Rightarrow> GoldbachTime list" where
  "goldbach_times_after t =
    (case add_minute t of
       Inl err \<Rightarrow> []
     | Inr t1 \<Rightarrow>
        (if is_goldbach (analyze_goldbach_time t1) then [analyze_goldbach_time t1] else [])
          @ goldbach_times_after t1)"
  by pat_completeness auto
termination
proof (relation "measures [\<lambda>t. 9999 - dt_year t, \<lambda>t. 12 - dt_month t, \<lambda>t. 31 - dt_day t,
                            \<lambda>t. 23 - dt_hour t, \<lambda>t. 59 - dt_minute t]")
  show "wf (measures [\<lambda>t. 9999 - dt_year t, \<lambda>t. 12 - dt_month t, \<lambda>t. 31 - dt_day t,
                            \<lambda>t. 23 - dt_hour t, \<lambda>t. 59 - dt_minute t])"
    by simp
next
  fix t t1
  assume a: "add_minute t = Inr t1"
  have d: "days_in_month (dt_year t) (dt_month t) \<le> 31"
    by (simp add: days_in_month_def)
  show "(t1, t) \<in> measures [\<lambda>t. 9999 - dt_year t, \<lambda>t. 12 - dt_month t, \<lambda>t. 31 - dt_day t,
                            \<lambda>t. 23 - dt_hour t, \<lambda>t. 59 - dt_minute t]"
    using a d by (auto simp: add_minute_def split: if_splits)
qed

declare goldbach_times_after.simps [simp del]

text \<open>
  \<open>advance k t\<close> adds \<open>k\<close> minutes to \<open>t\<close>, one at a time as the walk does; it is
  \<open>None\<close> when one of the additions raises \<open>OverflowError\<close>.
\<close>

fun advance :: "nat \<Rightarrow> datetime \<Rightarrow> datetime option" where
  "advance 0 t = Some t"
| "advance (Suc k) t = (case add_minute t of Inl err \<Rightarrow> None | Inr t1 \<Rightarrow> advance k t1)"

definition early_in_9999 :: datetime where
  "early_in_9999 =
    \<lparr>dt_year = 9999, dt_month = 1, dt_day = 1, dt_hour = 0, dt_minute = 2\<rparr>"

definition last_minutes_of_9999 :: datetime where
  "last_minutes_of_9999 =
    \<lparr>dt_year = 9999, dt_month = 12, dt_day = 31, dt_hour = 23, dt_minute = 50\<rparr>"

section \<open>Verified properties\<close>

subsection \<open>Exit rules\<close>

text \<open>
  Claim C2. With stop-loss checking enabled, \<open>_check_exit\<close> is the priority chain: bars
  held at or above the limit exits at the close with TIME\_EXIT; otherwise a touched stop
  (low at or below it for LONG, high at or above it otherwise) exits at the stop with
  STOP\_LOSS; otherwise a touched second target exits there with TARGET\_2; otherwise a
  touched first target exits there with TARGET\_1; otherwise there is no exit. So one
  reason at most applies per bar. A LONG entered at 100 with stop 90 and second target
  120 exits at 120 with TARGET\_2 on a bar with high 125 and low above 90 within the limit.
\<close>

theorem check_exit_priority:
  assumes "use_stop_loss cfg"
  shows "check_exit cfg tr hi lo cl bar =
      (if int bar - int (entry_bar tr) \<ge> max_bars_in_trade cfg then Some (cl, ''TIME_EXIT'')
       else if (if direction tr = ''LONG'' then lo \<le> stop_loss tr else hi \<ge> stop_loss tr)
         then Some (stop_loss tr, ''STOP_LOSS'')
       else if (if direction tr = ''LONG'' then hi \<ge> target_2 tr else lo \<le> target_2 tr)
         then Some (target_2 tr, ''TARGET_2'')
       else if (if direction tr = ''LONG'' then hi \<ge> target_1 tr else lo \<le> target_1 tr)
         then Some (target_1 tr, ''TARGET_1'')
       else None)
    \<and> (direction tr = ''LONG'' \<and> entry_price tr = 100 \<and> stop_loss tr = 90 \<and> target_2 tr = 120
         \<and> hi = 125 \<and> lo > 90 \<and> int bar - int (entry_bar tr) < max_bars_in_trade cfg
       \<longrightarrow> check_exit cfg tr hi lo cl bar = Some (120, ''TARGET_2''))"
  using assms by (simp add: check_exit_def Let_def)

theorem check_exit_priority_witness:
  "use_stop_loss example_config
   \<and> check_exit example_config example_long_trade 125 95 118 2 = Some (120, ''TARGET_2'')
   \<and> check_exit example_config example_long_trade 125 85 118 2 = Some (90, ''STOP_LOSS'')
   \<and> check_exit example_config example_long_trade 125 85 118 51 = Some (118, ''TIME_EXIT'')
   \<and> check_exit example_config example_long_trade 115 95 112 2 = Some (110, ''TARGET_1'')"
proof -
  have h: "use_stop_loss example_config" by (simp add: example_config_def)
  show ?thesis
    using h check_exit_priority [OF h, of example_long_trade 125 95 118 2]
      check_exit_priority [OF h, of example_long_trade 125 85 118 2]
      check_exit_priority [OF h, of example_long_trade 125 85 118 51]
      check_exit_priority [OF h, of example_long_trade 115 95 112 2]
    by (simp add: example_config_def example_long_trade_def)
qed

subsection \<open>Plan selection\<close>

text \<open>
  Claim C3. \<open>_determine_trade_plan\<close> returns the outcome of the first row of the rule
  table, tested top to bottom, whose guard on position and bias holds, and no plan when
  none does. For position 15 and BULLISH bias it is Plan A: EINSTEIN, entry zone at levels
  11 and 17, targets at levels 47 and 59, invalidation at level 7. For a position at or
  below 11 and BULLISH bias rule 1 fires too, and Plan B (LIQUIDITY) is never returned.
\<close>

theorem determine_trade_plan_first_match:
  "plan_outcome (determine_trade_plan r pos b)
     = map_option (rule_outcome_prices r) (first_match spec_rule_table pos (bias b))
   \<and> (pos = 15 \<and> bias b = BULLISH \<longrightarrow>
        plan_outcome (determine_trade_plan r pos b)
          = Some (EINSTEIN, (get_level_price r 11, get_level_price r 17), [47, 59],
                  [get_level_price r 47, get_level_price r 59], Some 7))
   \<and> (pos \<le> 11 \<and> bias b = BULLISH \<longrightarrow> fst (determine_trade_plan r pos b) = Some EINSTEIN)
   \<and> fst (determine_trade_plan r pos b) \<noteq> Some LIQUIDITY_PLAN"
  by (simp add: determine_trade_plan_def spec_rule_table_def plan_outcome_def
        rule_outcome_prices_def mk_target_def mk_invalidation_def)

theorem determine_trade_plan_first_match_witness:
  "plan_outcome (determine_trade_plan example_range 15 example_bullish)
     = Some (EINSTEIN, (21141 + 11 * 729 / 100, 21141 + 17 * 729 / 100), [47, 59],
             [21141 + 47 * 729 / 100, 21141 + 59 * 729 / 100], Some 7)
   \<and> fst (determine_trade_plan example_range 5 example_bullish) = Some EINSTEIN"
proof -
  have b: "bias example_bullish = BULLISH"
    by (simp add: example_bullish_def)
  have "plan_outcome (determine_trade_plan example_range 15 example_bullish)
      = Some (EINSTEIN, (get_level_price example_range 11, get_level_price example_range 17),
              [47, 59], [get_level_price example_range 47, get_level_price example_range 59],
              Some 7)"
    using determine_trade_plan_first_match [of example_range 15 example_bullish] b by blast
  moreover have "fst (determine_trade_plan example_range 5 example_bullish) = Some EINSTEIN"
    using determine_trade_plan_first_match [of example_range 5 example_bullish] b by simp
  ultimately show ?thesis
    by (simp add: get_level_price_def example_range_def)
qed

subsection \<open>Level 50 and the midpoint of the bracket\<close>

text \<open>
  For a price of 100 or more the bracket's bounds are \<open>size\<close> apart and level 50 is their
  midpoint.
\<close>

lemma level_50_is_midpoint_from_100:
  assumes "calculate_range e price po3 = Inr r" and "100 \<le> price"
  shows "get_level_price r 50 = (low r + high r) / 2"
  using assms
  by (auto simp: calculate_range_def Let_def get_level_price_def split: if_splits)

text \<open>
  Claim C5. \<open>get_level_price(bracket, 50)\<close> is the arithmetic midpoint of the bracket's
  bounds for every bracket of \<open>calculate_range\<close>, prices below 100 included. The code
  does not do this below 100: the bounds are scaled back down by 10,000 and the size is
  not. At price 1 with size 729 the bracket is 0.9477 to 1.0206, its midpoint 0.98415,
  and level 50 is priced at 365.4477.
\<close>

theorem level_50_below_100_not_midpoint:
  "\<exists>r. calculate_range example_engine 1 None = Inr r
      \<and> low r = 9477 / 10000 \<and> high r = 10206 / 10000 \<and> size_po3 r = 729
      \<and> get_level_price r 50 = 3654477 / 10000
      \<and> (low r + high r) / 2 = 98415 / 100000
      \<and> get_level_price r 50 \<noteq> (low r + high r) / 2"
  by (simp add: calculate_range_def example_engine_def po3_or_default_def py_int_def
        get_level_price_def Let_def)

subsection \<open>The layer reported by the bias analysis\<close>

text \<open>
  Claim C9. For a price whose position lies outside the three layer bands (strictly
  between 17 and 29, 35 and 41, 59 and 65, or 71 and 83) no layer is found, and
  \<open>analyze_bias\<close> still reports the layer FLOW while its confidence carries no layer
  bonus: it is the base 50 with the trend adjustment only, clamped to 40..85.
\<close>

theorem analyze_bias_gap_layer_is_flow:
  assumes "calculate_range e price po3 = Inr r"
    and "pos = get_position r price"
    and "(17 < pos \<and> pos < 29) \<or> (35 < pos \<and> pos < 41) \<or> (59 < pos \<and> pos < 65)
         \<or> (71 < pos \<and> pos < 83)"
  shows "get_layer_for_position pos = None
    \<and> (\<exists>ba. analyze_bias e price po3 td = Inr ba \<and> layer ba = FLOW \<and> position ba = pos
          \<and> confidence ba = max 40 (min 85 (trend_adjust td (bias ba) 50)))"
proof -
  have lay: "get_layer_for_position pos = None"
    using assms(3) by (auto simp: get_layer_for_position_def)
  show ?thesis
    using assms(3) lay
    by (auto simp: analyze_bias_def assms(1) assms(2)[symmetric] Let_def)
qed

lemma example_range_21300:
  "calculate_range example_engine 21300 None
     = Inr \<lparr>range_num = 29, low = 21141, high = 21870, size_po3 = 729,
            levels = calculate_levels 21141 729\<rparr>"
  by (simp add: calculate_range_def example_engine_def po3_or_default_def py_int_def Let_def)

theorem analyze_bias_gap_layer_is_flow_witness:
  "\<exists>ba. analyze_bias example_engine 21300 None 0 = Inr ba \<and> layer ba = FLOW
      \<and> position ba = 15900 / 729 \<and> confidence ba = 50"
proof -
  let ?r = "\<lparr>range_num = 29, low = 21141, high = 21870, size_po3 = 729,
            levels = calculate_levels 21141 729\<rparr>"
  have p: "(15900 / 729 :: real) = get_position ?r 21300"
    by (simp add: get_position_def)
  have b: "(17 < (15900 / 729 :: real) \<and> (15900 / 729 :: real) < 29) \<or>
    (35 < (15900 / 729 :: real) \<and> (15900 / 729 :: real) < 41) \<or>
    (59 < (15900 / 729 :: real) \<and> (15900 / 729 :: real) < 65) \<or>
    (71 < (15900 / 729 :: real) \<and> (15900 / 729 :: real) < 83)"
    by simp
  from analyze_bias_gap_layer_is_flow [OF example_range_21300 p b, of 0]
  show ?thesis by (auto simp: trend_adjust_def)
qed

subsection \<open>The setup counter\<close>

lemma generate_setup_counter:
  "setup_counter (snd (generate_setup e price smb po3 td t)) = setup_counter e + 1"
  by (simp add: generate_setup_def Let_def split: sum.splits option.splits prod.splits)

lemma generate_setup_id:
  "fst (generate_setup e price smb po3 td t) = Inr (Some s) \<Longrightarrow> setup_id s = setup_counter e + 1"
  by (auto simp: generate_setup_def Let_def split: sum.splits option.splits prod.splits)

lemma generate_setups_Cons:
  "fst (generate_setups e ((price, smb, po3, td, t) # calls))
    = fst (generate_setup e price smb po3 td t)
      # fst (generate_setups (snd (generate_setup e price smb po3 td t)) calls)"
  by (simp add: case_prod_beta Let_def)

lemma returned_ids_above:
  "\<forall>i \<in> set (returned_ids (fst (generate_setups e calls))). setup_counter e < i"
proof (induction calls arbitrary: e)
  case Nil
  show ?case by simp
next
  case (Cons c calls)
  obtain price smb po3 td t where c: "c = (price, smb, po3, td, t)"
    by (cases c) auto
  obtain res e1 where g: "generate_setup e price smb po3 td t = (res, e1)"
    by (cases "generate_setup e price smb po3 td t") auto
  have e1: "setup_counter e1 = setup_counter e + 1"
    using generate_setup_counter [of e price smb po3 td t] g by simp
  have rest: "\<forall>i \<in> set (returned_ids (fst (generate_setups e1 calls))). setup_counter e < i"
    using Cons.IH [of e1] e1 by auto
  show ?case
  proof (cases res)
    case (Inl err)
    then show ?thesis
      using rest by (simp add: c generate_setups_Cons g del: generate_setups.simps)
  next
    case (Inr o1)
    show ?thesis
    proof (cases o1)
      case None
      then show ?thesis
        using rest Inr by (simp add: c generate_setups_Cons g del: generate_setups.simps)
    next
      case (Some s)
      have "setup_id s = setup_counter e + 1"
        using generate_setup_id [of e price smb po3 td t s] g Inr Some by simp
      then show ?thesis
        using rest Inr Some by (simp add: c generate_setups_Cons g del: generate_setups.simps)
    qed
  qed
qed

lemma returned_ids_increasing:
  "sorted_wrt (<) (returned_ids (fst (generate_setups e calls)))"
proof (induction calls arbitrary: e)
  case Nil
  show ?case by simp
next
  case (Cons c calls)
  obtain price smb po3 td t where c: "c = (price, smb, po3, td, t)"
    by (cases c) auto
  obtain res e1 where g: "generate_setup e price smb po3 td t = (res, e1)"
    by (cases "generate_setup e price smb po3 td t") auto
  have e1: "setup_counter e1 = setup_counter e + 1"
    using generate_setup_counter [of e price smb po3 td t] g by simp
  have above: "\<forall>i \<in> set (returned_ids (fst (generate_setups e1 calls))). setup_counter e1 < i"
    by (rule returned_ids_above)
  have sorted: "sorted_wrt (<) (returned_ids (fst (generate_setups e1 calls)))"
    by (rule Cons.IH)
  show ?case
  proof (cases res)
    case (Inl err)
    then show ?thesis
      using sorted by (simp add: c generate_setups_Cons g del: generate_setups.simps)
  next
    case (Inr o1)
    show ?thesis
    proof (cases o1)
      case None
      then show ?thesis
        using sorted Inr by (simp add: c generate_setups_Cons g del: generate_setups.simps)
    next
      case (Some s)
      have "setup_id s = setup_counter e1"
        using generate_setup_id [of e price smb po3 td t s] g Inr Some e1 by simp
      then show ?thesis
        using sorted above Inr Some
        by (simp add: c generate_setups_Cons g del: generate_setups.simps)
    qed
  qed
qed

lemma example_ids: "returned_ids (fst (generate_setups example_engine example_calls)) = [1, 3]"
  by (simp add: example_calls_def example_engine_def generate_setup_def calculate_range_def
      po3_or_default_def py_int_def analyze_bias_def get_position_def get_layer_for_position_def
      trend_adjust_def determine_trade_plan_def Let_def)

text \<open>
  Claim C10. Every call of \<open>generate_setup\<close> increments the engine's counter by exactly
  one, whether it returns a setup, returns none or raises; a returned setup carries the
  incremented counter as its id. So over any sequence of calls on one engine the ids of
  the returned setups are strictly increasing, and they need not be consecutive: three
  calls of which the second finds no setup return the ids 1 and 3.
\<close>

theorem generate_setup_consumes_id:
  "setup_counter (snd (generate_setup e price smb po3 td t)) = setup_counter e + 1
   \<and> (\<forall>s. fst (generate_setup e price smb po3 td t) = Inr (Some s)
          \<longrightarrow> setup_id s = setup_counter e + 1)
   \<and> sorted_wrt (<) (returned_ids (fst (generate_setups e calls)))
   \<and> returned_ids (fst (generate_setups example_engine example_calls)) = [1, 3]"
  using generate_setup_counter generate_setup_id returned_ids_increasing example_ids
  by blast

lemma example_no_setup:
  "fst (generate_setup example_engine 21300 ''NQ'' None 0 example_time) = Inr None"
  by (simp add: example_engine_def generate_setup_def calculate_range_def
      po3_or_default_def py_int_def analyze_bias_def get_position_def get_layer_for_position_def
      trend_adjust_def determine_trade_plan_def Let_def)

lemma example_some_setup:
  "\<exists>s. fst (generate_setup example_engine 21200 ''NQ'' None 0 example_time) = Inr (Some s)"
  by (simp add: example_engine_def generate_setup_def calculate_range_def
      po3_or_default_def py_int_def analyze_bias_def get_position_def get_layer_for_position_def
      trend_adjust_def determine_trade_plan_def Let_def)

theorem generate_setup_consumes_id_witness:
  "fst (generate_setup example_engine 21300 ''NQ'' None 0 example_time) = Inr None
   \<and> setup_counter (snd (generate_setup example_engine 21300 ''NQ'' None 0 example_time)) = 1
   \<and> (\<exists>s. fst (generate_setup example_engine 21200 ''NQ'' None 0 example_time) = Inr (Some s)
          \<and> setup_id s = 1)"
proof -
  have c0: "setup_counter example_engine = 0"
    by (simp add: example_engine_def)
  obtain s where s: "fst (generate_setup example_engine 21200 ''NQ'' None 0 example_time)
      = Inr (Some s)"
    using example_some_setup by blast
  have "setup_id s = 1"
    using generate_setup_consumes_id [of example_engine 21200 "''NQ''" None 0 example_time] s c0
    by simp
  moreover have
    "setup_counter (snd (generate_setup example_engine 21300 ''NQ'' None 0 example_time)) = 1"
    using generate_setup_consumes_id [of example_engine 21300 "''NQ''" None 0 example_time] c0
    by simp
  ultimately show ?thesis
    using s example_no_setup by blast
qed

subsection \<open>Monte Carlo simulation\<close>

lemma mc_replay_equity: "fst (mc_replay ps (equity, peak, dd)) = equity + sum_list ps"
  by (induction ps arbitrary: equity peak dd) (simp_all add: Let_def)

lemma mc_final_capital_sum: "mc_final_capital initial ps = initial + sum_list ps"
  by (simp add: mc_final_capital_def mc_replay_equity)





lemma example_ruined_set:
  "{i. i < nat 1 \<and> mc_final_capital 100 (example_permutation i) \<le> 0} = {0}"
  by (auto simp: mc_final_capital_sum example_permutation_def)

lemma example_ruined_fraction: "ruined_fraction 100 1 example_permutation = 1"
  unfolding ruined_fraction_def example_ruined_set by simp

text \<open>
  Claim C7, as stated: \<open>risk_of_ruin\<close> equals the fraction (count divided by the number of
  simulations) of the simulations that end at or below zero capital. It does not: with an
  initial capital of 100, a ledger of one trade that lost 100 and one simulation, the
  fraction is 1 and the reported value is 100.
\<close>

theorem risk_of_ruin_not_fraction_counterexample:
  "mc_risk_of_ruin (monte_carlo example_small_config [example_losing_trade] 1 example_permutation)
     = Some 100
   \<and> ruined_fraction 100 1 example_permutation = 1
   \<and> mc_risk_of_ruin (monte_carlo example_small_config [example_losing_trade] 1 example_permutation)
     \<noteq> Some (ruined_fraction (initial_capital example_small_config) 1 example_permutation)"
  by (simp add: monte_carlo_def mc_risk_of_ruin_def example_ruined_fraction
      example_small_config_def example_config_def mc_final_capital_sum example_permutation_def
      Let_def)

text \<open>
  Claim C7, amended. For a non-empty ledger, a number of simulations of at least one and
  any permutations, \<open>risk_of_ruin\<close> is that fraction times 100: the percentage of the
  simulations that end at or below zero capital.
\<close>

theorem risk_of_ruin_is_percentage:
  assumes "ledger \<noteq> []" and "1 \<le> n"
  shows "mc_risk_of_ruin (monte_carlo cfg ledger n permutation)
    = Some (ruined_fraction (initial_capital cfg) n permutation * 100)"
proof -
  let ?fcs = "map (mc_final_capital (initial_capital cfg)) (map permutation [0..<nat n])"
  have ne: "?fcs \<noteq> []" using assms(2) by simp
  have "length (filter (\<lambda>fc. fc \<le> 0) ?fcs)
      = card {i. i < length ?fcs \<and> ?fcs ! i \<le> 0}"
    by (rule length_filter_conv_card)
  also have "{i. i < length ?fcs \<and> ?fcs ! i \<le> 0}
      = {i. i < nat n \<and> mc_final_capital (initial_capital cfg) (permutation i) \<le> 0}"
    by auto
  finally have cnt: "length (filter (\<lambda>fc. fc \<le> 0) ?fcs)
      = card {i. i < nat n \<and> mc_final_capital (initial_capital cfg) (permutation i) \<le> 0}" .
  show ?thesis
    using assms(1) ne cnt
    by (simp add: monte_carlo_def mc_risk_of_ruin_def ruined_fraction_def Let_def)
qed

theorem risk_of_ruin_is_percentage_witness:
  "[example_losing_trade] \<noteq> [] \<and> (1::int) \<le> 1
   \<and> mc_risk_of_ruin (monte_carlo example_small_config [example_losing_trade] 1 example_permutation)
       = Some (1 * 100)"
proof -
  have a: "[example_losing_trade] \<noteq> []" by simp
  have b: "(1::int) \<le> 1" by simp
  have c: "initial_capital example_small_config = 100"
    by (simp add: example_small_config_def example_config_def)
  have d: "ruined_fraction 100 1 example_permutation = 1"
    by (rule example_ruined_fraction)
  show ?thesis
    using risk_of_ruin_is_percentage [OF a b, of example_small_config example_permutation] a c d
    by simp
qed

subsection \<open>Brackets and positions\<close>






lemma PO3_SIZES_positive: "sz \<in> set PO3_SIZES \<Longrightarrow> 0 < sz"
  by (auto simp: PO3_SIZES_def)





subsection \<open>One position at a time\<close>

lemma count_opens_snoc:
  "xs \<noteq> [] \<Longrightarrow> count_opens (xs @ [b]) = count_opens xs + (if \<not> last xs \<and> b then 1 else 0)"
  by (induction xs rule: count_opens.induct) auto

lemma count_closes_snoc:
  "xs \<noteq> [] \<Longrightarrow> count_closes (xs @ [b]) = count_closes xs + (if last xs \<and> \<not> b then 1 else 0)"
  by (induction xs rule: count_closes.induct) auto

lemma run_loop_append:
  "run_loop cfg symbol now data (xs @ ys) s =
    (case run_loop cfg symbol now data xs s of
       Inl err \<Rightarrow> Inl err
     | Inr s1 \<Rightarrow> run_loop cfg symbol now data ys s1)"
  by (induction xs arbitrary: s) (auto split: sum.splits)

lemma look_for_entry_step:
  assumes "look_for_entry cfg symbol clock data i s = Inr s1"
  shows "trades s1 = trades s
    \<and> (in_trade s \<longrightarrow> s1 = s)
    \<and> (\<not> in_trade s \<longrightarrow>
          (in_trade s1 \<and> trade_id s1 = trade_id s + 1 \<and> current_trade s1 \<noteq> None)
        \<or> (\<not> in_trade s1 \<and> trade_id s1 = trade_id s \<and> current_trade s1 = current_trade s))"
  using assms
  by (auto simp: look_for_entry_def Let_def
      split: if_splits prod.splits sum.splits option.splits bool.splits)

lemma bar_step_step:
  assumes "bar_step cfg symbol now data i s = Inr s1" and "consistent s"
  shows "consistent s1
    \<and> trade_id s1 = trade_id s + (if \<not> in_trade s \<and> in_trade s1 then 1 else 0)
    \<and> length (trades s1) = length (trades s) + (if in_trade s \<and> \<not> in_trade s1 then 1 else 0)"
proof (cases "in_trade s")
  case True
  then obtain tr where tr: "current_trade s = Some tr"
    using assms(2) by (auto simp: consistent_def)
  let ?cur = "data ! i"
  show ?thesis
  proof (cases "check_exit cfg tr (bar_high ?cur) (bar_low ?cur) (bar_close ?cur) i")
    case None
    let ?s0 = "s\<lparr>current_trade := Some (update_excursions tr (bar_high ?cur) (bar_low ?cur))\<rparr>"
    have "look_for_entry cfg symbol (now i) data i ?s0 = Inr s1"
      using assms(1) True tr None by (simp add: bar_step_def Let_def)
    from look_for_entry_step [OF this] have "s1 = ?s0" using True by simp
    then show ?thesis using True by (simp add: consistent_def)
  next
    case (Some pr)
    obtain price reason where pr: "pr = (price, reason)" by (cases pr) auto
    from assms(1) True tr Some pr obtain trade where
      "s1 = s\<lparr>trades := trades s @ [trade], capital := capital s + pnl trade,
               equity_curve := equity_curve s @ [capital s + pnl trade],
               in_trade := False, current_trade := None\<rparr>"
      by (auto simp: bar_step_def Let_def split: sum.splits)
    then show ?thesis using True by (simp add: consistent_def)
  qed
next
  case False
  then have none: "current_trade s = None" using assms(2) by (simp add: consistent_def)
  have "look_for_entry cfg symbol (now i) data i s = Inr s1"
    using assms(1) False by (simp add: bar_step_def Let_def)
  from look_for_entry_step [OF this] show ?thesis
    using False none by (auto simp: consistent_def)
qed


lemma state_at_0: "state_at cfg e data symbol now 0 = Inr (initial_state cfg e)"
  by (simp add: state_at_def)

lemma state_at_Suc:
  "state_at cfg e data symbol now (Suc k) =
    (if k < length data - 1 then
       (case state_at cfg e data symbol now k of
          Inl err \<Rightarrow> Inl err
        | Inr s \<Rightarrow> bar_step cfg symbol now data (Suc k) s)
     else state_at cfg e data symbol now k)"
proof (cases "k < length data - 1")
  case True
  then have "take (Suc k) [1..<length data] = take k [1..<length data] @ [Suc k]"
    by (simp add: take_Suc_conv_app_nth)
  then show ?thesis
    using True by (simp add: state_at_def run_loop_append split: sum.splits)
next
  case False
  then show ?thesis by (simp add: state_at_def)
qed

lemma in_position_at_Inr:
  "state_at cfg e data symbol now k = Inr s \<Longrightarrow> in_position_at cfg e data symbol now k = in_trade s"
  by (simp add: in_position_at_def)

lemma reachable_invariant:
  assumes "state_at cfg e data symbol now k = Inr s"
  shows "consistent s \<and> 0 \<le> trade_id s
    \<and> count_opens (map (in_position_at cfg e data symbol now) [0..<Suc k]) = nat (trade_id s)
    \<and> count_closes (map (in_position_at cfg e data symbol now) [0..<Suc k]) = length (trades s)"
  using assms
proof (induction k arbitrary: s)
  case 0
  then have "s = initial_state cfg e" by (simp add: state_at_0)
  then show ?case by (simp add: initial_state_def consistent_def)
next
  case (Suc k)
  let ?f = "in_position_at cfg e data symbol now"
  let ?flags = "map ?f [0..<Suc k]"
  have ne: "?flags \<noteq> []" by simp
  have lastf: "last ?flags = ?f k" by simp
  have snoc: "map ?f [0..<Suc (Suc k)] = ?flags @ [?f (Suc k)]" by simp
  have now1: "?f (Suc k) = in_trade s" using Suc.prems by (rule in_position_at_Inr)
  show ?case
  proof (cases "k < length data - 1")
    case True
    then obtain s0 where s0: "state_at cfg e data symbol now k = Inr s0"
      and step: "bar_step cfg symbol now data (Suc k) s0 = Inr s"
      using Suc.prems by (auto simp: state_at_Suc split: sum.splits)
    have ih: "consistent s0" "0 \<le> trade_id s0" "count_opens ?flags = nat (trade_id s0)"
      "count_closes ?flags = length (trades s0)"
      using Suc.IH [OF s0] by simp_all
    have prev: "?f k = in_trade s0" using s0 by (rule in_position_at_Inr)
    have st: "consistent s"
      "trade_id s = trade_id s0 + (if \<not> in_trade s0 \<and> in_trade s then 1 else 0)"
      "length (trades s) = length (trades s0) + (if in_trade s0 \<and> \<not> in_trade s then 1 else 0)"
      using bar_step_step [OF step ih(1)] by simp_all
    have "count_opens (?flags @ [?f (Suc k)]) = nat (trade_id s)"
      using ih(2,3) st(2) by (simp only: count_opens_snoc [OF ne] lastf prev now1; auto)
    moreover have "count_closes (?flags @ [?f (Suc k)]) = length (trades s)"
      using ih(4) st(3) by (simp only: count_closes_snoc [OF ne] lastf prev now1; auto)
    moreover have "0 \<le> trade_id s" using ih(2) st(2) by simp
    ultimately show ?thesis using st(1) by (simp only: snoc; simp)
  next
    case False
    then have same: "state_at cfg e data symbol now k = Inr s"
      using Suc.prems by (simp add: state_at_Suc)
    have ih: "consistent s" "0 \<le> trade_id s" "count_opens ?flags = nat (trade_id s)"
      "count_closes ?flags = length (trades s)"
      using Suc.IH [OF same] by simp_all
    have prev: "?f k = in_trade s" using same by (rule in_position_at_Inr)
    have "count_opens (?flags @ [?f (Suc k)]) = nat (trade_id s)"
      using ih(3) by (simp only: count_opens_snoc [OF ne] lastf prev now1; auto)
    moreover have "count_closes (?flags @ [?f (Suc k)]) = length (trades s)"
      using ih(4) by (simp only: count_closes_snoc [OF ne] lastf prev now1; auto)
    ultimately show ?thesis using ih(1,2) by (simp only: snoc; simp)
  qed
qed

lemma open_positions_invariant:
  assumes "state_at cfg e data symbol now k = Inr s"
  shows "trade_id s = int (length (trades s)) + (if in_trade s then 1 else 0)"
  using assms
proof (induction k arbitrary: s)
  case 0
  then have "s = initial_state cfg e" by (simp add: state_at_0)
  then show ?case by (simp add: initial_state_def)
next
  case (Suc k)
  show ?case
  proof (cases "k < length data - 1")
    case True
    then obtain s0 where s0: "state_at cfg e data symbol now k = Inr s0"
      and step: "bar_step cfg symbol now data (Suc k) s0 = Inr s"
      using Suc.prems by (auto simp: state_at_Suc split: sum.splits)
    have c: "consistent s0" using reachable_invariant [OF s0] by simp
    show ?thesis using bar_step_step [OF step c] Suc.IH [OF s0] by auto
  next
    case False
    then have "state_at cfg e data symbol now k = Inr s"
      using Suc.prems by (simp add: state_at_Suc)
    then show ?thesis by (rule Suc.IH)
  qed
qed

lemma run_backtest_final:
  assumes "run_backtest cfg e data symbol now = Inr final"
  shows "\<exists>s. state_at cfg e data symbol now (length data - 1) = Inr s
    \<and> close_remaining cfg data s = Inr final"
  using assms
  by (auto simp: run_backtest_def state_at_def split: sum.splits)

lemma close_remaining_step:
  assumes "close_remaining cfg data s = Inr final" and "consistent s"
  shows "trade_id final = trade_id s
    \<and> length (trades final) = length (trades s) + (if in_trade s then 1 else 0)"
  using assms
  by (auto simp: close_remaining_def consistent_def split: sum.splits option.splits bool.splits)

text \<open>
  Claim C1. In every state a run of \<open>run_backtest\<close> reaches, whatever the series and
  the configuration, at most one position is open: the open trade is there exactly when
  the flag is set, the positions opened so far exceed the trades in the ledger by one when
  a position is open and by none otherwise, and a bar processed with a position open
  opens no other. When the run completes, the ledger holds as many trades as the run made
  steps from IN-POSITION back to FLAT (the forced close at the end included), which is
  also the number of its steps from FLAT to IN-POSITION.
\<close>

theorem run_backtest_single_position:
  "(\<forall>k s. state_at cfg e data symbol now k = Inr s \<longrightarrow>
       (in_trade s \<longleftrightarrow> current_trade s \<noteq> None)
     \<and> trade_id s = int (length (trades s)) + (if in_trade s then 1 else 0)
     \<and> (\<forall>i s1. in_trade s \<and> bar_step cfg symbol now data i s = Inr s1
           \<longrightarrow> trade_id s1 = trade_id s))
   \<and> (\<forall>final. run_backtest cfg e data symbol now = Inr final \<longrightarrow>
        length (trades final) = count_closes (position_flags cfg e data symbol now)
      \<and> count_opens (position_flags cfg e data symbol now)
          = count_closes (position_flags cfg e data symbol now)
      \<and> trade_id final = int (length (trades final)))"
proof (intro conjI allI impI)
  fix k s
  assume st: "state_at cfg e data symbol now k = Inr s"
  have c: "consistent s" using reachable_invariant [OF st] by simp
  then show "in_trade s \<longleftrightarrow> current_trade s \<noteq> None" by (simp add: consistent_def)
  show "trade_id s = int (length (trades s)) + (if in_trade s then 1 else 0)"
    using st by (rule open_positions_invariant)
  fix i s1
  assume "in_trade s \<and> bar_step cfg symbol now data i s = Inr s1"
  then show "trade_id s1 = trade_id s"
    using bar_step_step [of cfg symbol now data i s s1] c by simp
next
  fix final
  assume run: "run_backtest cfg e data symbol now = Inr final"
  let ?f = "in_position_at cfg e data symbol now"
  let ?n = "length data - 1"
  obtain s where s: "state_at cfg e data symbol now ?n = Inr s"
    and cl: "close_remaining cfg data s = Inr final"
    using run_backtest_final [OF run] by blast
  have inv: "consistent s" "0 \<le> trade_id s"
    "count_opens (map ?f [0..<Suc ?n]) = nat (trade_id s)"
    "count_closes (map ?f [0..<Suc ?n]) = length (trades s)"
    using reachable_invariant [OF s] by simp_all
  have tid: "trade_id s = int (length (trades s)) + (if in_trade s then 1 else 0)"
    using s by (rule open_positions_invariant)
  have fin: "trade_id final = trade_id s"
    "length (trades final) = length (trades s) + (if in_trade s then 1 else 0)"
    using close_remaining_step [OF cl inv(1)] by simp_all
  have ne: "map ?f [0..<Suc ?n] \<noteq> []" by simp
  have lastf: "last (map ?f [0..<Suc ?n]) = in_trade s"
    using in_position_at_Inr [OF s] by simp
  let ?flags = "map ?f [0..<Suc ?n] @ [False]"
  have opens: "count_opens ?flags = nat (trade_id s)"
    using inv(3) by (simp only: count_opens_snoc [OF ne]; simp)
  have closes: "count_closes ?flags = length (trades s) + (if in_trade s then 1 else 0)"
    using inv(4) by (simp only: count_closes_snoc [OF ne] lastf; simp)
  have flags: "count_opens (position_flags cfg e data symbol now) = count_opens ?flags
      \<and> count_closes (position_flags cfg e data symbol now) = count_closes ?flags"
  proof (cases "data = []")
    case True
    then have "in_trade s = False"
      using s by (simp add: state_at_def initial_state_def) auto
    then show ?thesis using True lastf by (simp add: position_flags_def)
  next
    case False
    then have "Suc ?n = length data" by simp
    then show ?thesis by (simp only: position_flags_def)
  qed
  show "length (trades final) = count_closes (position_flags cfg e data symbol now)"
    using flags closes fin(2) by simp
  show "count_opens (position_flags cfg e data symbol now)
          = count_closes (position_flags cfg e data symbol now)"
    using flags opens closes tid by (auto simp: nat_add_distrib)
  show "trade_id final = int (length (trades final))"
    using fin tid by simp
qed

lemma is_goldbach_eq:
  "is_goldbach (analyze_goldbach_time t) = (dt_hour t + dt_minute t \<in> set GOLDBACH_NUMBERS)"
  by (simp add: analyze_goldbach_time_def Let_def)

lemma example_time_facts:
  "is_goldbach (analyze_goldbach_time example_time) = False"
  "get_amd_cycle example_time = DISTRIBUTION_1"
  "is_key_day (get_monthly_partition_info example_time) = True"
  "partition_day (get_monthly_partition_info example_time) = 3"
  by (simp_all add: is_goldbach_eq GOLDBACH_NUMBERS_def get_amd_cycle_def
      get_monthly_partition_info_def example_time_def partition_start_day_def Let_def)

lemma example_bias_21200: "analyze_bias e 21200 (Some 729) 0 =
   Inr \<lparr>bias = BULLISH, confidence = 75, gip_level = 17, position = 5900 / 729, layer = LIQUIDITY\<rparr>"
  by (simp add: analyze_bias_def calculate_range_def po3_or_default_def py_int_def
      get_position_def get_layer_for_position_def trend_adjust_def Let_def)

lemma example_range_21200: "calculate_range e 21200 (Some 729) =
   Inr \<lparr>range_num = 29, low = 21141, high = 21870, size_po3 = 729,
            levels = calculate_levels 21141 729\<rparr>"
  by (simp add: calculate_range_def po3_or_default_def py_int_def Let_def)

lemma example_setup_21200:
  "generate_setup e 21200 ''NQ'' (Some 729) 0 example_time =
    (Inr (Some \<lparr>setup_id = setup_counter e + 1, setup_timestamp = example_time,
        setup_symbol = ''NQ'', setup_plan = EINSTEIN, setup_bias = BULLISH,
        setup_confidence = 75, entry_zone = (2122119 / 100, 2126493 / 100),
        setup_entry_price = 2124306 / 100, setup_stop_loss = 2119203 / 100,
        targets = [\<lparr>target_name = ''T1 (Partial)'', target_level = 47,
                     target_price = 2148363 / 100\<rparr>,
                   \<lparr>target_name = ''T2 (Full)'', target_level = 59,
                     target_price = 2157111 / 100\<rparr>],
        invalidation = \<lparr>inv_level = Some 7, inv_price = Some (2119203 / 100)\<rparr>,
        goldbach_time_confirm = False, setup_amd_cycle = DISTRIBUTION_1,
        monthly_partition_day = 3, setup_signal_strength = ''EXCELLENT''\<rparr>),
     e\<lparr>setup_counter := setup_counter e + 1\<rparr>)"
  by (simp add: generate_setup_def example_range_21200 example_bias_21200 example_time_facts
      get_position_def determine_trade_plan_def mk_target_def mk_invalidation_def
      get_level_price_def calculate_signal_strength_def Let_def)

lemma example_setup_21300:
  "generate_setup e 21300 ''NQ'' (Some 729) 0 example_time =
    (Inr None, e\<lparr>setup_counter := setup_counter e + 1\<rparr>)"
  by (simp add: generate_setup_def analyze_bias_def calculate_range_def po3_or_default_def
      py_int_def get_position_def get_layer_for_position_def trend_adjust_def
      determine_trade_plan_def Let_def)

lemma example_indices: "[1..<length example_bars] = [1, 2, 3, 4]"
  by (simp add: example_bars_def upt_conv_Cons)

lemma example_run:
  "\<exists>final. run_backtest example_config example_engine example_bars ''NQ'' example_clock = Inr final
     \<and> map exit_reason (trades final) = [''TARGET_2'', ''TIME_EXIT'']"
  by (simp add: run_backtest_def example_indices bar_step_def look_for_entry_def
      filter_setup_def strength_order_def check_exit_def close_trade_def close_remaining_def
      open_trade_def update_excursions_def initial_state_def example_bars_def example_config_def
      example_clock_def example_setup_21200 example_setup_21300 Let_def)

lemma example_state_1:
  "\<exists>s. state_at example_config example_engine example_bars ''NQ'' example_clock 1 = Inr s
     \<and> in_trade s \<and> trades s = []"
  by (simp add: state_at_def example_indices bar_step_def look_for_entry_def
      filter_setup_def strength_order_def open_trade_def initial_state_def example_bars_def
      example_config_def example_clock_def example_setup_21200 Let_def)

theorem run_backtest_single_position_witness:
  "(\<exists>s. state_at example_config example_engine example_bars ''NQ'' example_clock 1 = Inr s
      \<and> in_trade s \<and> current_trade s \<noteq> None \<and> trades s = [] \<and> trade_id s = 1)
   \<and> (\<exists>final. run_backtest example_config example_engine example_bars ''NQ'' example_clock
          = Inr final
        \<and> map exit_reason (trades final) = [''TARGET_2'', ''TIME_EXIT'']
        \<and> trade_id final = 2
        \<and> count_opens
            (position_flags example_config example_engine example_bars ''NQ'' example_clock) = 2
        \<and> count_closes
            (position_flags example_config example_engine example_bars ''NQ'' example_clock) = 2)"
proof -
  note main = run_backtest_single_position
    [of example_config example_engine example_bars "''NQ''" example_clock]
  from example_state_1 obtain s where
    s: "state_at example_config example_engine example_bars ''NQ'' example_clock 1 = Inr s"
      "in_trade s" "trades s = []"
    by (elim exE conjE)
  have "(in_trade s \<longleftrightarrow> current_trade s \<noteq> None)
      \<and> trade_id s = int (length (trades s)) + (if in_trade s then 1 else 0)"
    using main [THEN conjunct1, rule_format, OF s(1)] by (elim conjE) (intro conjI)
  then have "current_trade s \<noteq> None \<and> trade_id s = 1"
    using s(2,3) by simp
  then have first: "\<exists>s. state_at example_config example_engine example_bars ''NQ''
      example_clock 1 = Inr s
      \<and> in_trade s \<and> current_trade s \<noteq> None \<and> trades s = [] \<and> trade_id s = 1"
    using s by (intro exI [of _ s]) simp
  from example_run obtain final where
    f: "run_backtest example_config example_engine example_bars ''NQ'' example_clock = Inr final"
      "map exit_reason (trades final) = [''TARGET_2'', ''TIME_EXIT'']"
    by (elim exE conjE)
  have "length (map exit_reason (trades final)) = length [''TARGET_2'', ''TIME_EXIT'']"
    by (simp only: f(2))
  then have len: "length (trades final) = 2" by simp
  have fin: "length (trades final)
      = count_closes
          (position_flags example_config example_engine example_bars ''NQ'' example_clock)"
    "count_opens (position_flags example_config example_engine example_bars ''NQ'' example_clock)
      = count_closes
          (position_flags example_config example_engine example_bars ''NQ'' example_clock)"
    "trade_id final = int (length (trades final))"
    using main [THEN conjunct2, rule_format, OF f(1)] by simp_all
  have second: "\<exists>final. run_backtest example_config example_engine example_bars ''NQ''
        example_clock = Inr final
        \<and> map exit_reason (trades final) = [''TARGET_2'', ''TIME_EXIT'']
        \<and> trade_id final = 2
        \<and> count_opens
            (position_flags example_config example_engine example_bars ''NQ'' example_clock) = 2
        \<and> count_closes
            (position_flags example_config example_engine example_bars ''NQ'' example_clock) = 2"
    using f fin len by (intro exI [of _ final]) simp
  from first second show ?thesis by (rule conjI)
qed

subsection \<open>The next Goldbach times\<close>

lemma is_goldbach_special:
  assumes "valid_datetime t"
  shows "is_goldbach (analyze_goldbach_time t) = special_minute (minute_of_day t)"
  using assms by (simp add: is_goldbach_eq special_minute_def minute_of_day_def valid_datetime_def)

lemma special_in_hour:
  assumes "h < 24"
  shows "special_minute (h * 60 + (59 - h))"
    and "h < 23 \<Longrightarrow> special_minute ((h + 1) * 60 + (28 - h))"
proof -
  have d: "(h * 60 + (59 - h)) div 60 = h"
    using assms by (simp only: div_mult_self3; simp)
  have m: "(h * 60 + (59 - h)) mod 60 = 59 - h"
    using assms by (simp only: mod_mult_self3; simp)
  have s: "h + (59 - h) = 59" using assms by simp
  show "special_minute (h * 60 + (59 - h))"
    unfolding special_minute_def d m s by (simp add: GOLDBACH_NUMBERS_def)
  assume h: "h < 23"
  have d2: "((h + 1) * 60 + (28 - h)) div 60 = h + 1"
    using h by (simp only: div_mult_self3; simp)
  have m2: "((h + 1) * 60 + (28 - h)) mod 60 = 28 - h"
    using h by (simp only: mod_mult_self3; simp)
  have s2: "h + 1 + (28 - h) = 29" using h by simp
  show "special_minute ((h + 1) * 60 + (28 - h))"
    unfolding special_minute_def d2 m2 s2 by (simp add: GOLDBACH_NUMBERS_def)
qed

lemma exists_special:
  assumes "m < 1440"
  shows "\<exists>d. 1 \<le> d \<and> d \<le> 59 \<and> special_minute ((m + d) mod 1440)"
proof -
  define h where "h = m div 60"
  define mi where "mi = m mod 60"
  have m: "m = h * 60 + mi" and mi: "mi < 60" and h: "h < 24"
    using assms by (simp_all add: h_def mi_def)
  consider (same_hour) "mi + h < 59" | (next_hour) "59 \<le> mi + h" "h < 23" | (wrap_day) "59 \<le> mi + h" "h = 23"
    using h by linarith
  then show ?thesis
  proof cases
    case same_hour
    have "(m + (59 - h - mi)) mod 1440 = h * 60 + (59 - h)"
      using same_hour h m by simp
    then have "special_minute ((m + (59 - h - mi)) mod 1440)"
      using special_in_hour(1) [OF h] by simp
    moreover have "1 \<le> 59 - h - mi" "59 - h - mi \<le> 59" using same_hour by simp_all
    ultimately show ?thesis by blast
  next
    case next_hour
    have "m + (88 - mi - h) = (h + 1) * 60 + (28 - h)"
      using next_hour h m mi by simp
    moreover have "(h + 1) * 60 + (28 - h) < 1440" using next_hour by simp
    ultimately have "(m + (88 - mi - h)) mod 1440 = (h + 1) * 60 + (28 - h)" by simp
    then have "special_minute ((m + (88 - mi - h)) mod 1440)"
      using special_in_hour(2) [OF h next_hour(2)] by simp
    moreover have "1 \<le> 88 - mi - h" "88 - mi - h \<le> 59" using next_hour mi by simp_all
    ultimately show ?thesis by blast
  next
    case wrap_day
    have "m + (89 - mi) = 1440 + 29" using wrap_day m mi by simp
    then have "(m + (89 - mi)) mod 1440 = 29" by simp
    then have "special_minute ((m + (89 - mi)) mod 1440)"
      by (simp add: special_minute_def GOLDBACH_NUMBERS_def)
    moreover have "1 \<le> 89 - mi" "89 - mi \<le> 59" using wrap_day mi by simp_all
    ultimately show ?thesis by blast
  qed
qed

lemma loop_unfold_step:
  assumes "int (length rs) < cnt" and "add_minute t = Inr t1"
  shows "next_goldbach_loop cnt t rs =
    next_goldbach_loop cnt t1
      (if is_goldbach (analyze_goldbach_time t1) then rs @ [analyze_goldbach_time t1] else rs)"
  using assms by (subst next_goldbach_loop.simps) simp

lemma loop_unfold_done:
  assumes "\<not> int (length rs) < cnt"
  shows "next_goldbach_loop cnt t rs = Some (Inr rs)"
  using assms by (subst next_goldbach_loop.simps) simp

lemma loop_unfold_overflow:
  assumes "int (length rs) < cnt" and "add_minute t = Inl err"
  shows "next_goldbach_loop cnt t rs = Some (Inl err)"
  using assms by (subst next_goldbach_loop.simps) simp

lemma add_minute_error: "add_minute t = Inl err \<Longrightarrow> err = OverflowError"
  by (auto simp: add_minute_def split: if_splits)

lemma loop_characterised:
  "next_goldbach_loop cnt t rs =
    (if cnt - int (length rs) \<le> int (length (goldbach_times_after t))
     then Some (Inr (rs @ take (nat (cnt - int (length rs))) (goldbach_times_after t)))
     else Some (Inl OverflowError))"
proof (induction t arbitrary: rs rule: goldbach_times_after.induct)
  case (1 t)
  show ?case
  proof (cases "int (length rs) < cnt")
    case False
    then show ?thesis by (simp add: loop_unfold_done)
  next
    case True
    show ?thesis
    proof (cases "add_minute t")
      case (Inl err)
      then have "next_goldbach_loop cnt t rs = Some (Inl OverflowError)"
        using True add_minute_error [OF Inl] by (simp add: loop_unfold_overflow)
      moreover have "goldbach_times_after t = []"
        using Inl by (subst goldbach_times_after.simps) simp
      ultimately show ?thesis using True by simp
    next
      case (Inr t1)
      let ?g = "analyze_goldbach_time t1"
      let ?rs = "if is_goldbach ?g then rs @ [?g] else rs"
      have unf: "next_goldbach_loop cnt t rs = next_goldbach_loop cnt t1 ?rs"
        using True Inr by (rule loop_unfold_step)
      have gta: "goldbach_times_after t =
          (if is_goldbach ?g then [?g] else []) @ goldbach_times_after t1"
        using Inr by (subst goldbach_times_after.simps) simp
      note ih = "1.IH" [OF Inr, of ?rs]
      show ?thesis
      proof (cases "is_goldbach ?g")
        case g: True
        have n: "nat (cnt - int (length rs)) = Suc (nat (cnt - int (length (rs @ [?g]))))"
          using True by simp
        show ?thesis
          using ih g True by (simp only: unf gta n if_True) (auto simp: nat_diff_distrib)
      next
        case g: False
        show ?thesis using ih g by (simp add: unf gta)
      qed
    qed
  qed
qed

lemma add_minute_valid:
  assumes "valid_datetime t" and "add_minute t = Inr t1"
  shows "valid_datetime t1 \<and> minute_of_day t1 = (minute_of_day t + 1) mod 1440"
proof -
  have d: "28 \<le> days_in_month (dt_year t) (dt_month t + 1)"
    "28 \<le> days_in_month (dt_year t + 1) 1"
    by (simp_all add: days_in_month_def)
  have v: "dt_hour t < 24" "dt_minute t < 60"
    using assms(1) by (simp_all add: valid_datetime_def)
  consider (minute) "dt_minute t < 59"
    | (hour) "dt_minute t = 59" "dt_hour t < 23"
    | (day) "dt_minute t = 59" "dt_hour t = 23"
    using v by linarith
  then show ?thesis
  proof cases
    case minute
    then show ?thesis
      using assms v
      by (auto simp: add_minute_def valid_datetime_def minute_of_day_def)
  next
    case hour
    then show ?thesis
      using assms
      by (auto simp: add_minute_def valid_datetime_def minute_of_day_def)
  next
    case day
    then show ?thesis
      using assms d
      by (auto simp: add_minute_def valid_datetime_def minute_of_day_def split: if_splits)
  qed
qed

lemma advance_valid:
  assumes "valid_datetime t" and "advance k t = Some tk"
  shows "valid_datetime tk \<and> minute_of_day tk = (minute_of_day t + k) mod 1440"
  using assms
proof (induction k arbitrary: t)
  case 0
  then show ?case by (simp add: valid_datetime_def minute_of_day_def)
next
  case (Suc k)
  then obtain t1 where t1: "add_minute t = Inr t1" "advance k t1 = Some tk"
    by (auto split: sum.splits)
  have v1: "valid_datetime t1" "minute_of_day t1 = (minute_of_day t + 1) mod 1440"
    using add_minute_valid [OF Suc.prems(1) t1(1)] by simp_all
  have "minute_of_day tk = (minute_of_day t1 + k) mod 1440" "valid_datetime tk"
    using Suc.IH [OF v1(1) t1(2)] by simp_all
  then show ?case by (simp add: v1(2) mod_add_left_eq)
qed

lemma advance_join:
  "advance a t = Some ta \<Longrightarrow> advance b ta = Some tb \<Longrightarrow> advance (a + b) t = Some tb"
  by (induction a arbitrary: t) (auto split: sum.splits)

lemma advance_split:
  "advance (a + b) t = Some tb \<Longrightarrow> \<exists>ta. advance a t = Some ta \<and> advance b ta = Some tb"
  by (induction a arbitrary: t) (auto split: sum.splits)

lemma goldbach_times_after_special: "\<forall>g \<in> set (goldbach_times_after t). is_goldbach g"
proof (induction t rule: goldbach_times_after.induct)
  case (1 t)
  show ?case
  proof (cases "add_minute t")
    case (Inl err)
    then show ?thesis by (subst goldbach_times_after.simps) simp
  next
    case (Inr t1)
    then show ?thesis using "1.IH" [OF Inr] by (subst goldbach_times_after.simps) auto
  qed
qed

lemma goldbach_times_after_advance:
  assumes "advance k t = Some tk"
  shows "length (goldbach_times_after tk) \<le> length (goldbach_times_after t)
    \<and> (1 \<le> k \<and> is_goldbach (analyze_goldbach_time tk)
         \<longrightarrow> Suc (length (goldbach_times_after tk)) \<le> length (goldbach_times_after t))"
  using assms
proof (induction k arbitrary: t)
  case 0
  then show ?case by simp
next
  case (Suc k)
  then obtain t1 where t1: "add_minute t = Inr t1" "advance k t1 = Some tk"
    by (auto split: sum.splits)
  have gta: "goldbach_times_after t =
      (if is_goldbach (analyze_goldbach_time t1) then [analyze_goldbach_time t1] else [])
        @ goldbach_times_after t1"
    using t1(1) by (subst goldbach_times_after.simps) simp
  note ih = Suc.IH [OF t1(2)]
  show ?case
  proof (cases k)
    case 0
    then have "tk = t1" using t1(2) by simp
    then show ?thesis by (simp add: gta)
  next
    case (Suc j)
    then show ?thesis using ih by (simp add: gta)
  qed
qed

lemma enough_minutes_enough_times:
  assumes "valid_datetime t" and "advance (59 * n) t \<noteq> None"
  shows "n \<le> length (goldbach_times_after t)"
  using assms
proof (induction n arbitrary: t)
  case 0
  then show ?case by simp
next
  case (Suc n)
  obtain tz where tz: "advance (59 + 59 * n) t = Some tz"
    using Suc.prems(2) by auto
  then obtain ta where ta: "advance 59 t = Some ta" "advance (59 * n) ta = Some tz"
    using advance_split by blast
  have "minute_of_day t < 1440"
    using Suc.prems(1) by (simp add: valid_datetime_def minute_of_day_def)
  then obtain d where d: "1 \<le> d" "d \<le> 59" "special_minute ((minute_of_day t + d) mod 1440)"
    using exists_special by blast
  have "advance (d + (59 - d)) t = Some ta" using ta(1) d(2) by simp
  then obtain td where td: "advance d t = Some td" "advance (59 - d) td = Some ta"
    using advance_split by blast
  have vd: "valid_datetime td" "minute_of_day td = (minute_of_day t + d) mod 1440"
    using advance_valid [OF Suc.prems(1) td(1)] by simp_all
  have sp: "is_goldbach (analyze_goldbach_time td)"
    using is_goldbach_special [OF vd(1)] d(3) vd(2) by simp
  have "advance ((59 - d) + 59 * n) td = Some tz"
    using td(2) ta(2) by (rule advance_join)
  then have "advance (59 * n + (59 - d)) td = Some tz" by (simp add: add.commute)
  then have "advance (59 * n) td \<noteq> None" using advance_split by blast
  then have "n \<le> length (goldbach_times_after td)" using Suc.IH [OF vd(1)] by simp
  moreover have "Suc (length (goldbach_times_after td)) \<le> length (goldbach_times_after t)"
    using goldbach_times_after_advance [OF td(1)] d(1) sp by simp
  ultimately show ?case by simp
qed

lemma gt_time_analyze: "gt_time (analyze_goldbach_time t) = t"
  by (simp add: analyze_goldbach_time_def Let_def)

text \<open>
  Claim C8, as stated: for every start time and every count from 1 to 60 the walk returns
  exactly that many results. Started at 23:50 on the last day of year 9999 with count 1,
  it finds no Goldbach time among 23:51 to 23:59 (the sums 74 to 82) and the next addition
  of a minute raises \<open>OverflowError\<close>.
\<close>

theorem next_goldbach_times_overflow_counterexample:
  "valid_datetime last_minutes_of_9999
   \<and> get_next_goldbach_times last_minutes_of_9999 1 = Some (Inl OverflowError)"
  by (simp add: get_next_goldbach_times_def last_minutes_of_9999_def valid_datetime_def
      days_in_month_def loop_unfold_step loop_unfold_overflow add_minute_def is_goldbach_eq
      GOLDBACH_NUMBERS_def)

text \<open>
  Claim C8, amended. For every start time and every count the walk terminates. It returns
  the first \<open>cnt\<close> Goldbach times after the start, exactly \<open>cnt\<close> results for a count
  of at least 1, when that many Goldbach times lie between the start and the last
  representable minute 9999-12-31 23:59, and raises \<open>OverflowError\<close> in every other case.
  There are that many whenever \<open>59 * cnt\<close> minutes can still be added to the start, since
  from any minute of the day a Goldbach time lies at most 59 minutes ahead.
\<close>

theorem next_goldbach_times_exact:
  "get_next_goldbach_times t cnt =
     (if cnt \<le> int (length (goldbach_times_after t))
      then Some (Inr (take (nat cnt) (goldbach_times_after t)))
      else Some (Inl OverflowError))
   \<and> (\<forall>g \<in> set (goldbach_times_after t). is_goldbach g)
   \<and> (valid_datetime t \<and> 1 \<le> cnt \<and> advance (59 * nat cnt) t \<noteq> None \<longrightarrow>
        (\<exists>rs. get_next_goldbach_times t cnt = Some (Inr rs) \<and> int (length rs) = cnt
           \<and> (\<forall>g \<in> set rs. is_goldbach g)))"
proof (intro conjI impI)
  show eq: "get_next_goldbach_times t cnt =
     (if cnt \<le> int (length (goldbach_times_after t))
      then Some (Inr (take (nat cnt) (goldbach_times_after t)))
      else Some (Inl OverflowError))"
    by (simp add: get_next_goldbach_times_def loop_characterised)
  show sp: "\<forall>g \<in> set (goldbach_times_after t). is_goldbach g"
    by (rule goldbach_times_after_special)
  assume a: "valid_datetime t \<and> 1 \<le> cnt \<and> advance (59 * nat cnt) t \<noteq> None"
  then have "nat cnt \<le> length (goldbach_times_after t)"
    using enough_minutes_enough_times [of t "nat cnt"] by simp
  then have le: "cnt \<le> int (length (goldbach_times_after t))" by simp
  let ?rs = "take (nat cnt) (goldbach_times_after t)"
  have "get_next_goldbach_times t cnt = Some (Inr ?rs)" using eq le by simp
  moreover have "int (length ?rs) = cnt" using le a by simp
  moreover have "\<forall>g \<in> set ?rs. is_goldbach g" using sp by (auto dest: in_set_takeD)
  ultimately show "\<exists>rs. get_next_goldbach_times t cnt = Some (Inr rs) \<and> int (length rs) = cnt
           \<and> (\<forall>g \<in> set rs. is_goldbach g)" by blast
qed

lemma advance_in_hour:
  "dt_minute t + k \<le> 59 \<Longrightarrow> advance k t = Some (t\<lparr>dt_minute := dt_minute t + k\<rparr>)"
proof (induction k arbitrary: t)
  case 0
  then show ?case by simp
next
  case (Suc k)
  then have a: "add_minute t = Inr (t\<lparr>dt_minute := dt_minute t + 1\<rparr>)"
    by (simp add: add_minute_def)
  have "advance k (t\<lparr>dt_minute := dt_minute t + 1\<rparr>)
      = Some (t\<lparr>dt_minute := dt_minute t + 1\<rparr>\<lparr>dt_minute := dt_minute t + 1 + k\<rparr>)"
    using Suc.IH [of "t\<lparr>dt_minute := dt_minute t + 1\<rparr>"] Suc.prems by simp
  then show ?case using a by simp
qed

lemma example_minutes_left: "advance (59 * nat 1) early_in_9999 \<noteq> None"
proof -
  have a: "advance 57 early_in_9999 = Some (early_in_9999\<lparr>dt_minute := 59\<rparr>)"
    using advance_in_hour [of early_in_9999 57] by (simp add: early_in_9999_def)
  have "\<exists>tb. advance (Suc (Suc 0)) (early_in_9999\<lparr>dt_minute := 59\<rparr>) = Some tb"
    by (simp add: add_minute_def early_in_9999_def)
  then obtain tb where b: "advance (Suc (Suc 0)) (early_in_9999\<lparr>dt_minute := 59\<rparr>) = Some tb"
    by (elim exE)
  have c: "advance (57 + Suc (Suc 0)) early_in_9999 = Some tb"
    using a b by (rule advance_join)
  have "59 * nat 1 = 57 + Suc (Suc 0)" by simp
  then have "advance (59 * nat 1) early_in_9999 = Some tb" using c by (simp only:)
  then show ?thesis by simp
qed

lemma example_next_times:
  "get_next_goldbach_times early_in_9999 1 =
    Some (Inr [analyze_goldbach_time (early_in_9999\<lparr>dt_minute := 3\<rparr>)])"
  by (simp add: get_next_goldbach_times_def early_in_9999_def
      loop_unfold_step loop_unfold_done add_minute_def is_goldbach_eq GOLDBACH_NUMBERS_def)

theorem next_goldbach_times_exact_witness:
  "valid_datetime early_in_9999 \<and> (1::int) \<le> 1
   \<and> advance (59 * nat 1) early_in_9999 \<noteq> None
   \<and> (\<exists>rs. get_next_goldbach_times early_in_9999 1 = Some (Inr rs)
         \<and> int (length rs) = 1 \<and> map is_goldbach rs = [True]
         \<and> map gt_time rs = [early_in_9999\<lparr>dt_minute := 3\<rparr>])"
proof -
  have v: "valid_datetime early_in_9999"
    by (simp add: valid_datetime_def early_in_9999_def days_in_month_def)
  have a: "(1::int) \<le> 1" by simp
  note m = example_minutes_left
  have h: "valid_datetime early_in_9999 \<and> (1::int) \<le> 1
      \<and> advance (59 * nat 1) early_in_9999 \<noteq> None"
    using v a m by (intro conjI)
  from next_goldbach_times_exact [of early_in_9999 1, THEN conjunct2, THEN conjunct2,
      rule_format, OF h]
  obtain rs where rs: "get_next_goldbach_times early_in_9999 1 = Some (Inr rs)"
    "int (length rs) = 1" "\<forall>g \<in> set rs. is_goldbach g"
    by (elim exE conjE)
  have eq: "rs = [analyze_goldbach_time (early_in_9999\<lparr>dt_minute := 3\<rparr>)]"
    using rs(1) example_next_times by simp
  then have t: "map gt_time rs = [early_in_9999\<lparr>dt_minute := 3\<rparr>]"
    by (simp add: gt_time_analyze)
  have g: "map is_goldbach rs = [True]"
    using rs(3) eq by simp
  show ?thesis using v m rs(1,2) t g by (intro conjI exI [of _ rs]) simp_all
qed


end
